theory Spec2Isabelle
  imports Complex_Main
begin

section \<open>Errors and results\<close>

text \<open>
  The notebook raises nothing itself; every exception comes out of a library call.
  \<open>ValueError\<close> and \<open>IndexError\<close> are the two that the array library raises on the
  operations modelled concretely below (shapes that do not broadcast, a boolean index of
  the wrong shape, a negative sample count, the maximum of an empty array); any other
  exception of a wrapped library is a \<open>LibraryError\<close> with its message.
\<close>

datatype error = ValueError | IndexError | LibraryError string

type_synonym 'a result = "error + 'a"

definition rbind :: "'a result \<Rightarrow> ('a \<Rightarrow> 'b result) \<Rightarrow> 'b result" where
  "rbind m k = (case m of Inl e \<Rightarrow> Inl e | Inr v \<Rightarrow> k v)"

section \<open>Arrays\<close>

text \<open>
  A two-dimensional array is its shape and its elements in row-major order, which is
  also what \<open>flatten\<close> returns. One-dimensional arrays are lists. Floating-point
  numbers are modelled as exact reals.
\<close>

record 'a ndarray =
  nrows :: nat
  ncols :: nat
  adata :: "'a list"

definition tabulate2 :: "nat \<Rightarrow> nat \<Rightarrow> (nat \<Rightarrow> nat \<Rightarrow> 'a) \<Rightarrow> 'a ndarray" where
  "tabulate2 r c g =
     \<lparr>nrows = r, ncols = c, adata = concat (map (\<lambda>i. map (\<lambda>j. g i j) [0..<c]) [0..<r])\<rparr>"

definition elem :: "'a ndarray \<Rightarrow> nat \<Rightarrow> nat \<Rightarrow> 'a" where
  "elem A i j = adata A ! (i * ncols A + j)"

text \<open>Reading an operand at a position of the broadcast result: an axis of length 1 is
  repeated along the result's axis.\<close>

definition belem :: "'a ndarray \<Rightarrow> nat \<Rightarrow> nat \<Rightarrow> 'a" where
  "belem A i j = elem A (if nrows A = 1 then 0 else i) (if ncols A = 1 then 0 else j)"

definition bcast_dim :: "nat \<Rightarrow> nat \<Rightarrow> nat result" where
  "bcast_dim m n =
     (if m = n then Inr m else if m = 1 then Inr n else if n = 1 then Inr m
      else Inl ValueError)"

text \<open>An elementwise binary operator on two arrays (\<open>&\<close>, \<open>|\<close>): the shapes are
  broadcast against each other, and shapes that do not broadcast raise.\<close>

definition bcast2 :: "('a \<Rightarrow> 'b \<Rightarrow> 'c) \<Rightarrow> 'a ndarray \<Rightarrow> 'b ndarray \<Rightarrow> 'c ndarray result" where
  "bcast2 g A B =
     rbind (bcast_dim (nrows A) (nrows B)) (\<lambda>r.
     rbind (bcast_dim (ncols A) (ncols B)) (\<lambda>c.
     Inr (tabulate2 r c (\<lambda>i j. g (belem A i j) (belem B i j)))))"

definition logical_and :: "bool ndarray \<Rightarrow> bool ndarray \<Rightarrow> bool ndarray result" where
  "logical_and = bcast2 (\<and>)"

definition logical_or :: "bool ndarray \<Rightarrow> bool ndarray \<Rightarrow> bool ndarray result" where
  "logical_or = bcast2 (\<or>)"

text \<open>An operator between an array and a scalar (\<open>X_g == c\<close>, \<open>np.abs(Y_g + c) <= d\<close>)
  acts on every element and keeps the shape.\<close>

definition amap :: "('a \<Rightarrow> 'b) \<Rightarrow> 'a ndarray \<Rightarrow> 'b ndarray" where
  "amap g A = \<lparr>nrows = nrows A, ncols = ncols A, adata = map g (adata A)\<rparr>"

text \<open>\<open>A[M] = v\<close> with a boolean array \<open>M\<close>: the index must have the shape of \<open>A\<close>.\<close>

definition mask_assign2 :: "'a ndarray \<Rightarrow> bool ndarray \<Rightarrow> 'a \<Rightarrow> 'a ndarray result" where
  "mask_assign2 A M v =
     (if nrows M = nrows A \<and> ncols M = ncols A
      then Inr (tabulate2 (nrows A) (ncols A) (\<lambda>i j. if elem M i j then v else elem A i j))
      else Inl IndexError)"

text \<open>\<open>xs[mask] = v\<close> on one-dimensional arrays.\<close>

definition mask_assign :: "'a list \<Rightarrow> bool list \<Rightarrow> 'a \<Rightarrow> 'a list result" where
  "mask_assign xs ms v =
     (if length ms = length xs
      then Inr (map (\<lambda>(x, m). if m then v else x) (zip xs ms))
      else Inl IndexError)"

definition flatten :: "'a ndarray \<Rightarrow> 'a list" where
  "flatten A = adata A"

text \<open>\<open>np.linspace(start, stop, num)\<close> in exact arithmetic: \<open>num\<close> evenly spaced
  samples, the last one set to \<open>stop\<close>; a negative \<open>num\<close> raises.\<close>

definition linspace :: "real \<Rightarrow> real \<Rightarrow> int \<Rightarrow> real list result" where
  "linspace start stop num =
     (if num < 0 then Inl ValueError
      else let n = nat num; step = (stop - start) / real (n - 1);
               y = map (\<lambda>i. real i * step + start) [0..<n]
           in Inr (if n > 1 then y[n - 1 := stop] else y))"

text \<open>\<open>np.meshgrid(x_g, y_g, sparse=True, indexing="ij")\<close>: a column of the
  \<open>x\<close> samples and a row of the \<open>y\<close> samples.\<close>

definition meshgrid_sparse_ij :: "'a list \<Rightarrow> 'a list \<Rightarrow> 'a ndarray \<times> 'a ndarray" where
  "meshgrid_sparse_ij xs ys =
     (\<lparr>nrows = length xs, ncols = 1, adata = xs\<rparr>,
      \<lparr>nrows = 1, ncols = length ys, adata = ys\<rparr>)"

text \<open>Python's \<open>int()\<close> on a float truncates towards zero.\<close>

definition py_int :: "real \<Rightarrow> int" where
  "py_int r = (if r \<ge> 0 then \<lfloor>r\<rfloor> else \<lceil>r\<rceil>)"

section \<open>Geometry parameters and the design grid\<close>

text \<open>The scalars of the notebook's parameter cell, and their values there.\<close>

record params =
  waveguide_width :: real
  design_region_width :: real
  design_region_height :: real
  arm_separation :: real
  resolution :: int
  minimum_length :: real
  eta_e :: real

definition notebook_params :: params where
  "notebook_params =
     \<lparr>waveguide_width = 0.5, design_region_width = 2.5, design_region_height = 2.5,
      arm_separation = 1.0, resolution = 20, minimum_length = 0.09, eta_e = 0.55\<rparr>"

definition eta_i :: real where
  "eta_i = 0.5"

definition design_region_resolution :: "params \<Rightarrow> int" where
  "design_region_resolution P = 5 * resolution P"

definition Nx :: "params \<Rightarrow> int" where
  "Nx P = py_int (real_of_int (design_region_resolution P) * design_region_width P)"

definition Ny :: "params \<Rightarrow> int" where
  "Ny P = py_int (real_of_int (design_region_resolution P) * design_region_height P)"

section \<open>Boundary bitmasks\<close>

definition x_g :: "params \<Rightarrow> real list result" where
  "x_g P = linspace (- design_region_width P / 2) (design_region_width P / 2) (Nx P)"

definition y_g :: "params \<Rightarrow> real list result" where
  "y_g P = linspace (- design_region_height P / 2) (design_region_height P / 2) (Ny P)"

definition left_wg_mask :: "params \<Rightarrow> real ndarray \<Rightarrow> real ndarray \<Rightarrow> bool ndarray result" where
  "left_wg_mask P X_g Y_g =
     logical_and (amap (\<lambda>x. x = - design_region_width P / 2) X_g)
                 (amap (\<lambda>y. \<bar>y\<bar> \<le> waveguide_width P / 2) Y_g)"

definition top_right_wg_mask :: "params \<Rightarrow> real ndarray \<Rightarrow> real ndarray \<Rightarrow> bool ndarray result" where
  "top_right_wg_mask P X_g Y_g =
     logical_and (amap (\<lambda>x. x = design_region_width P / 2) X_g)
                 (amap (\<lambda>y. \<bar>y + arm_separation P / 2\<bar> \<le> waveguide_width P / 2) Y_g)"

definition bottom_right_wg_mask :: "params \<Rightarrow> real ndarray \<Rightarrow> real ndarray \<Rightarrow> bool ndarray result" where
  "bottom_right_wg_mask P X_g Y_g =
     logical_and (amap (\<lambda>x. x = design_region_width P / 2) X_g)
                 (amap (\<lambda>y. \<bar>y - arm_separation P / 2\<bar> \<le> waveguide_width P / 2) Y_g)"

definition Si_mask :: "params \<Rightarrow> real ndarray \<Rightarrow> real ndarray \<Rightarrow> bool ndarray result" where
  "Si_mask P X_g Y_g =
     rbind (left_wg_mask P X_g Y_g) (\<lambda>l.
     rbind (top_right_wg_mask P X_g Y_g) (\<lambda>t.
     rbind (bottom_right_wg_mask P X_g Y_g) (\<lambda>b.
     rbind (logical_or l t) (\<lambda>lt. logical_or lt b))))"

definition border_mask :: "params \<Rightarrow> real ndarray \<Rightarrow> real ndarray \<Rightarrow> bool ndarray result" where
  "border_mask P X_g Y_g =
     rbind (logical_or (amap (\<lambda>x. x = - design_region_width P / 2) X_g)
                       (amap (\<lambda>x. x = design_region_width P / 2) X_g)) (\<lambda>lr.
     rbind (logical_or lr (amap (\<lambda>y. y = - design_region_height P / 2) Y_g)) (\<lambda>lrb.
     logical_or lrb (amap (\<lambda>y. y = design_region_height P / 2) Y_g)))"

text \<open>\<open>SiO2_mask = border_mask.copy(); SiO2_mask[Si_mask] = False\<close>\<close>

definition SiO2_mask :: "bool ndarray \<Rightarrow> bool ndarray \<Rightarrow> bool ndarray result" where
  "SiO2_mask border Si = mask_assign2 border Si False"

text \<open>The whole bitmask cell: the grid coordinates, then the three masks
  \<open>(Si_mask, border_mask, SiO2_mask)\<close>.\<close>

definition bitmasks :: "params \<Rightarrow> (bool ndarray \<times> bool ndarray \<times> bool ndarray) result" where
  "bitmasks P =
     rbind (x_g P) (\<lambda>xs.
     rbind (y_g P) (\<lambda>ys.
     case meshgrid_sparse_ij xs ys of (X_g, Y_g) \<Rightarrow>
     rbind (Si_mask P X_g Y_g) (\<lambda>Si.
     rbind (border_mask P X_g Y_g) (\<lambda>border.
     rbind (SiO2_mask border Si) (\<lambda>SiO2.
     Inr (Si, border, SiO2))))))"

section \<open>Initial guess and bounds\<close>

text \<open>
  \<open>x = np.ones((n,)) * 0.5; x[Si_mask.flatten()] = 1; x[SiO2_mask.flatten()] = 0\<close>,
  \<open>lb = np.zeros((Nx * Ny,)); lb[Si_mask.flatten()] = 1\<close> and
  \<open>ub = np.ones((Nx * Ny,)); ub[SiO2_mask.flatten()] = 0\<close>. A negative length raises.
\<close>

definition np_full :: "int \<Rightarrow> real \<Rightarrow> real list result" where
  "np_full n v = (if n < 0 then Inl ValueError else Inr (replicate (nat n) v))"

definition initial_guess :: "params \<Rightarrow> bool ndarray \<Rightarrow> bool ndarray \<Rightarrow> real list result" where
  "initial_guess P Si SiO2 =
     rbind (np_full (Nx P * Ny P) 1) (\<lambda>ones.
     rbind (mask_assign (map (\<lambda>v. v * 0.5) ones) (flatten Si) 1) (\<lambda>x1.
     mask_assign x1 (flatten SiO2) 0))"

definition lower_bounds :: "params \<Rightarrow> bool ndarray \<Rightarrow> real list result" where
  "lower_bounds P Si =
     rbind (np_full (Nx P * Ny P) 0) (\<lambda>zeros. mask_assign zeros (flatten Si) 1)"

definition upper_bounds :: "params \<Rightarrow> bool ndarray \<Rightarrow> real list result" where
  "upper_bounds P SiO2 =
     rbind (np_full (Nx P * Ny P) 1) (\<lambda>ones. mask_assign ones (flatten SiO2) 0)"

text \<open>The design vector and its bounds \<open>(x, lb, ub)\<close> as the optimisation loop finds them.\<close>

definition design_setup :: "params \<Rightarrow> (real list \<times> real list \<times> real list) result" where
  "design_setup P =
     rbind (bitmasks P) (\<lambda>(Si, border, SiO2).
     rbind (initial_guess P Si SiO2) (\<lambda>x.
     rbind (lower_bounds P Si) (\<lambda>lb.
     rbind (upper_bounds P SiO2) (\<lambda>ub.
     Inr (x, lb, ub)))))"

section \<open>The wrapped libraries\<close>

text \<open>
  The simulator, the adjoint solver, the differentiation package and the optimizer are
  outside the notebook and are parameters of the model. The filter and the projection
  are functions of their arguments; the calls that run or draw the simulation act on a
  world \<open>'w\<close> (simulation object, figures, files), which they may change even when they
  raise. Every function takes its arguments in the order of the library's signature:
  \<open>conic_filter(x, radius, Lx, Ly, resolution)\<close>, \<open>tanh_projection(x, beta, eta)\<close>,
  \<open>tensor_jacobian_product(fun, argnum)(*args, vector)\<close>, \<open>opt(rho_vector, need_gradient)\<close>.
  \<open>plot_design\<close> stands for the straight-line block of plotting calls in \<open>f\<close>, from
  \<open>plt.figure()\<close> to \<open>plt.show()\<close>, which saves the figure under the number it is given.
  \<open>get_conic_radius_from_eta_e\<close> is called once, before \<open>mapping\<close> is defined; the model
  starts after that call has returned.
\<close>

datatype algorithm = LD_MMA

record nlopt_opt =
  sv_algorithm :: algorithm
  sv_n :: int
  sv_lower_bounds :: "real list"
  sv_upper_bounds :: "real list"
  sv_maxeval :: int
  sv_xtol_rel :: real

text \<open>
  What a run of \<open>solver.optimize\<close> does, seen from the notebook: it returns a point, it
  raises, or it evaluates the objective at a point with a gradient buffer and goes on
  from the value and the gradient it got back.
\<close>

datatype solver_run =
    Finish "real list"
  | Fail error
  | Evaluate "real list" "real list" "real list \<Rightarrow> real list \<Rightarrow> solver_run"

record 'w library =
  get_conic_radius_from_eta_e :: "real \<Rightarrow> real \<Rightarrow> real"
  conic_filter :: "real list \<Rightarrow> real \<Rightarrow> real \<Rightarrow> real \<Rightarrow> int \<Rightarrow> real ndarray result"
  tanh_projection :: "real ndarray \<Rightarrow> real \<Rightarrow> real \<Rightarrow> real ndarray result"
  tensor_jacobian_product ::
    "(real list \<Rightarrow> real \<Rightarrow> real \<Rightarrow> real list result) \<Rightarrow> nat \<Rightarrow>
     real list \<Rightarrow> real \<Rightarrow> real \<Rightarrow> real list \<Rightarrow> real list result"
  opt_call :: "real list list \<Rightarrow> bool \<Rightarrow> 'w \<Rightarrow> (complex list \<times> real ndarray) result \<times> 'w"
  opt_update_design :: "real list list \<Rightarrow> 'w \<Rightarrow> unit result \<times> 'w"
  plot_design :: "int \<Rightarrow> 'w \<Rightarrow> unit result \<times> 'w"
  nlopt_optimize :: "nlopt_opt \<Rightarrow> real list \<Rightarrow> solver_run"

text \<open>The stopping rule \<open>maxeval\<close> of the optimizer, as a property of a run: the
  objective is evaluated at most \<open>m\<close> times, whatever it returns.\<close>

primrec evals_bounded :: "solver_run \<Rightarrow> nat \<Rightarrow> bool" where
  "evals_bounded (Finish xopt) = (\<lambda>m. True)"
| "evals_bounded (Fail e) = (\<lambda>m. True)"
| "evals_bounded (Evaluate v g k) = (\<lambda>m. 0 < m \<and> (\<forall>r g'. evals_bounded (k r g') (m - 1)))"

section \<open>The filtering and projection mapping\<close>

definition filter_radius :: "'w library \<Rightarrow> params \<Rightarrow> real" where
  "filter_radius L P = get_conic_radius_from_eta_e L (minimum_length P) (eta_e P)"

definition mapping :: "'w library \<Rightarrow> params \<Rightarrow> real list \<Rightarrow> real \<Rightarrow> real \<Rightarrow> real list result" where
  "mapping L P x eta beta =
     rbind (conic_filter L x (filter_radius L P) (design_region_width P)
              (design_region_height P) (design_region_resolution P)) (\<lambda>filtered_field.
     rbind (tanh_projection L filtered_field beta eta) (\<lambda>projected_field.
     Inr (flatten projected_field)))"

text \<open>The composition as the specification words it: filter, then project, then
  flatten, each stage handing its array to the next.\<close>

definition filter_stage :: "'w library \<Rightarrow> params \<Rightarrow> real list \<Rightarrow> real ndarray result" where
  "filter_stage L P x =
     conic_filter L x (filter_radius L P) (design_region_width P) (design_region_height P)
       (design_region_resolution P)"

definition project_stage :: "'w library \<Rightarrow> real \<Rightarrow> real \<Rightarrow> real ndarray \<Rightarrow> real ndarray result" where
  "project_stage L eta beta field = tanh_projection L field beta eta"

definition filter_project_flatten :: "'w library \<Rightarrow> params \<Rightarrow> real list \<Rightarrow> real \<Rightarrow> real \<Rightarrow> real list result" where
  "filter_project_flatten L P x eta beta =
     (case filter_stage L P x of
        Inl e \<Rightarrow> Inl e
      | Inr filtered \<Rightarrow>
          (case project_stage L eta beta filtered of
             Inl e \<Rightarrow> Inl e
           | Inr projected \<Rightarrow> Inr (adata projected)))"

section \<open>The objective over mode coefficients\<close>

text \<open>An elementwise operator on one-dimensional arrays, with broadcasting of a
  one-element operand.\<close>

definition bcast1 :: "('a \<Rightarrow> 'b \<Rightarrow> 'c) \<Rightarrow> 'a list \<Rightarrow> 'b list \<Rightarrow> 'c list result" where
  "bcast1 g xs ys =
     (if length xs = length ys then Inr (map (\<lambda>(x, y). g x y) (zip xs ys))
      else if length xs = 1 then Inr (map (\<lambda>y. g (hd xs) y) ys)
      else if length ys = 1 then Inr (map (\<lambda>x. g x (hd ys)) xs)
      else Inl ValueError)"

text \<open>\<open>np.mean\<close>. The mean of an empty array is not a number (and no exception); the
  reals have no such value, so what is proved about \<open>mean\<close> is about non-empty arrays.\<close>

definition mean :: "real list \<Rightarrow> real" where
  "mean xs = sum_list xs / real (length xs)"

definition J :: "complex list \<Rightarrow> complex list \<Rightarrow> complex list \<Rightarrow> real result" where
  "J source_coef top_coef bottom_coef =
     rbind (bcast1 (/) top_coef source_coef) (\<lambda>t.
     rbind (bcast1 (/) bottom_coef source_coef) (\<lambda>b.
     rbind (bcast1 (+) (map (\<lambda>z. (cmod z)\<^sup>2) t) (map (\<lambda>z. (cmod z)\<^sup>2) b)) (\<lambda>power.
     Inr (mean power))))"

section \<open>The objective callback\<close>

text \<open>
  The state the notebook keeps across calls: the history, the counter (the one-element
  list \<open>cur_iter\<close>, kept as its element), the design vector \<open>x\<close>, the sharpness, the lines
  printed so far, and the world of the libraries. A call that raises keeps the changes it
  made before the exception.
\<close>

datatype line = Current_iteration int | Current_beta int

record 'w notebook =
  evaluation_history :: "real list"
  cur_iter :: int
  x_vec :: "real list"
  cur_beta :: int
  stdout :: "line list"
  world :: 'w

text \<open>\<open>np.max\<close> raises on an empty array.\<close>

definition np_max :: "real list \<Rightarrow> real result" where
  "np_max xs = (if xs = [] then Inl ValueError else Inr (Max (set xs)))"

text \<open>\<open>np.sum(A, axis=1)\<close>: the sum of every row.\<close>

definition sum_axis1 :: "real ndarray \<Rightarrow> real list" where
  "sum_axis1 A = map (\<lambda>i. sum_list (map (\<lambda>j. elem A i j) [0..<ncols A])) [0..<nrows A]"

text \<open>\<open>xs[:] = vs\<close>: the value must have the length of \<open>xs\<close>, or one element.\<close>

definition slice_assign :: "real list \<Rightarrow> real list \<Rightarrow> real list result" where
  "slice_assign xs vs =
     (if length vs = length xs then Inr vs
      else if length vs = 1 then Inr (replicate (length xs) (hd vs))
      else Inl ValueError)"

text \<open>\<open>f(v, gradient, cur_beta)\<close> returns \<open>np.real(f0)\<close>; the gradient buffer, which the
  source overwrites in place, is returned next to it.\<close>

definition f ::
  "'w library \<Rightarrow> params \<Rightarrow> real list \<Rightarrow> real list \<Rightarrow> int \<Rightarrow> 'w notebook
   \<Rightarrow> (real list \<times> real list) result \<times> 'w notebook" where
  "f L P v gradient beta s0 =
     (let s = s0\<lparr>stdout := stdout s0 @ [Current_iteration (cur_iter s0 + 1)]\<rparr> in
      case mapping L P v eta_i (real_of_int beta) of
        Inl e \<Rightarrow> (Inl e, s)
      | Inr rho \<Rightarrow>
         (case opt_call L [rho] True (world s) of
            (Inl e, w1) \<Rightarrow> (Inl e, s\<lparr>world := w1\<rparr>)
          | (Inr (f0, dJ_du), w1) \<Rightarrow>
             (case plot_design L (cur_iter s) w1 of
                (Inl e, w2) \<Rightarrow> (Inl e, s\<lparr>world := w2\<rparr>)
              | (Inr u, w2) \<Rightarrow>
                 (case (if length gradient > 0
                        then rbind (tensor_jacobian_product L (mapping L P) 0 v eta_i
                                      (real_of_int beta) (sum_axis1 dJ_du))
                                   (slice_assign gradient)
                        else Inr gradient) of
                    Inl e \<Rightarrow> (Inl e, s\<lparr>world := w2\<rparr>)
                  | Inr gradient' \<Rightarrow>
                     (case np_max (map Re f0) of
                        Inl e \<Rightarrow> (Inl e, s\<lparr>world := w2\<rparr>)
                      | Inr m \<Rightarrow>
                         (Inr (map Re f0, gradient'),
                          s\<lparr>world := w2,
                            evaluation_history := evaluation_history s @ [m],
                            cur_iter := cur_iter s + 1\<rparr>))))))"

section \<open>The continuation loop\<close>

definition beta_scale :: int where
  "beta_scale = 2"

definition num_betas :: nat where
  "num_betas = 6"

definition update_factor :: int where
  "update_factor = 12"

text \<open>\<open>lambda a, g: f(a, g, cur_beta)\<close>: the sharpness is read when the objective is called.\<close>

definition objective ::
  "'w library \<Rightarrow> params \<Rightarrow> real list \<Rightarrow> real list \<Rightarrow> 'w notebook
   \<Rightarrow> (real list \<times> real list) result \<times> 'w notebook" where
  "objective L P a g s = f L P a g (cur_beta s) s"

text \<open>Running the optimizer against an objective; an exception of the objective comes
  out of \<open>optimize\<close>.\<close>

primrec run_solver ::
  "(real list \<Rightarrow> real list \<Rightarrow> 's \<Rightarrow> (real list \<times> real list) result \<times> 's)
   \<Rightarrow> solver_run \<Rightarrow> 's \<Rightarrow> real list result \<times> 's" where
  "run_solver obj (Finish xopt) = (\<lambda>s. (Inr xopt, s))"
| "run_solver obj (Fail e) = (\<lambda>s. (Inl e, s))"
| "run_solver obj (Evaluate v g k) =
     (\<lambda>s. case obj v g s of
             (Inl e, s') \<Rightarrow> (Inl e, s')
           | (Inr (r, g'), s') \<Rightarrow> run_solver obj (k r g') s')"

text \<open>The optimizer object of a round, built from nothing by \<open>nlopt.opt(algorithm, n)\<close>
  and the setters for the bounds, \<open>maxeval\<close> and the tolerance.\<close>

definition solver :: "params \<Rightarrow> real list \<Rightarrow> real list \<Rightarrow> nlopt_opt" where
  "solver P lb ub =
     \<lparr>sv_algorithm = LD_MMA, sv_n = Nx P * Ny P, sv_lower_bounds = lb,
      sv_upper_bounds = ub, sv_maxeval = update_factor, sv_xtol_rel = 1 / 10000\<rparr>"

text \<open>The body of the loop: the sharpness is printed, a new optimizer is run from \<open>x\<close>
  against the objective, its result is stored in \<open>x\<close>, and the sharpness is scaled.\<close>

definition continuation_round ::
  "'w library \<Rightarrow> params \<Rightarrow> real list \<Rightarrow> real list \<Rightarrow> 'w notebook \<Rightarrow> unit result \<times> 'w notebook" where
  "continuation_round L P lb ub s0 =
     (let s = s0\<lparr>stdout := stdout s0 @ [Current_beta (cur_beta s0)]\<rparr>
      in case run_solver (objective L P) (nlopt_optimize L (solver P lb ub) (x_vec s)) s of
           (Inl e, s') \<Rightarrow> (Inl e, s')
         | (Inr xopt, s') \<Rightarrow>
            (case slice_assign (x_vec s') xopt of
               Inl e \<Rightarrow> (Inl e, s')
             | Inr x' \<Rightarrow> (Inr (), s'\<lparr>x_vec := x', cur_beta := cur_beta s' * beta_scale\<rparr>)))"

text \<open>\<open>for iters in range(...)\<close>: the body once for every element, until one raises.\<close>

fun for_range :: "('s \<Rightarrow> unit result \<times> 's) \<Rightarrow> nat list \<Rightarrow> 's \<Rightarrow> unit result \<times> 's" where
  "for_range body [] s = (Inr (), s)"
| "for_range body (iters # rest) s =
     (case body s of
        (Inl e, s') \<Rightarrow> (Inl e, s')
      | (Inr u, s') \<Rightarrow> for_range body rest s')"

definition continuation_loop ::
  "'w library \<Rightarrow> params \<Rightarrow> real list \<Rightarrow> real list \<Rightarrow> 'w notebook \<Rightarrow> unit result \<times> 'w notebook" where
  "continuation_loop L P lb ub s = for_range (continuation_round L P lb ub) [0..<num_betas] s"

text \<open>The notebook as the optimisation cell finds it: an empty history, the counter at
  zero, the initial guess and \<open>cur_beta = 4\<close>.\<close>

definition start_state :: "real list \<Rightarrow> 'w \<Rightarrow> 'w notebook" where
  "start_state x0 w =
     \<lparr>evaluation_history = [], cur_iter = 0, x_vec = x0, cur_beta = 4, stdout = [], world = w\<rparr>"

definition printed_betas :: "line list \<Rightarrow> int list" where
  "printed_betas ls = concat (map (\<lambda>l. case l of Current_beta b \<Rightarrow> [b] | Current_iteration i \<Rightarrow> []) ls)"

definition printed_iterations :: "line list \<Rightarrow> int list" where
  "printed_iterations ls = concat (map (\<lambda>l. case l of Current_iteration i \<Rightarrow> [i] | Current_beta b \<Rightarrow> []) ls)"

section \<open>The cells after the loop\<close>

text \<open>\<open>f0, dJ_du = opt([mapping(x, eta_i, cur_beta)], need_gradient=False)\<close>\<close>

definition spectral_response ::
  "'w library \<Rightarrow> params \<Rightarrow> 'w notebook \<Rightarrow> (complex list \<times> real ndarray) result \<times> 'w notebook" where
  "spectral_response L P s =
     (case mapping L P (x_vec s) eta_i (real_of_int (cur_beta s)) of
        Inl e \<Rightarrow> (Inl e, s)
      | Inr rho \<Rightarrow> (case opt_call L [rho] False (world s) of (r, w) \<Rightarrow> (r, s\<lparr>world := w\<rparr>)))"

text \<open>\<open>opt.update_design([mapping(x, eta_i, cur_beta)])\<close>\<close>

definition final_design_update ::
  "'w library \<Rightarrow> params \<Rightarrow> 'w notebook \<Rightarrow> unit result \<times> 'w notebook" where
  "final_design_update L P s =
     (case mapping L P (x_vec s) eta_i (real_of_int (cur_beta s)) of
        Inl e \<Rightarrow> (Inl e, s)
      | Inr rho \<Rightarrow> (case opt_update_design L [rho] (world s) of (r, w) \<Rightarrow> (r, s\<lparr>world := w\<rparr>)))"

section \<open>A library to run the model on\<close>

text \<open>
  A stand-in for the wrapped libraries, on which the definitions above can be evaluated:
  the filter reshapes its input into one row, the projection returns its input, the
  simulation returns the objective value 1 and an empty gradient array, plotting does
  nothing, and the optimizer evaluates the objective once at its starting point (when
  \<open>maxeval\<close> allows one evaluation) and returns that point.
\<close>

definition sample_library :: "unit library" where
  "sample_library =
     \<lparr>get_conic_radius_from_eta_e = (\<lambda>l e. l),
      conic_filter = (\<lambda>v r w h res. Inr \<lparr>nrows = 1, ncols = length v, adata = v\<rparr>),
      tanh_projection = (\<lambda>A beta eta. Inr A),
      tensor_jacobian_product = (\<lambda>m i v eta beta u. Inr v),
      opt_call = (\<lambda>rhos need_gradient w. (Inr ([1], \<lparr>nrows = 0, ncols = 0, adata = []\<rparr>), w)),
      opt_update_design = (\<lambda>rhos w. (Inr (), w)),
      plot_design = (\<lambda>i w. (Inr (), w)),
      nlopt_optimize = (\<lambda>c x0. if 0 < sv_maxeval c then Evaluate x0 x0 (\<lambda>r g. Finish x0) else Finish x0)\<rparr>"

text \<open>The same library with a simulation that raises.\<close>

definition failing_library :: "unit library" where
  "failing_library =
     sample_library\<lparr>opt_call := (\<lambda>rhos need_gradient w. (Inl (LibraryError ''meep''), w))\<rparr>"

text \<open>The same library with a projection and a simulation that show the sharpness: the
  projected field is \<open>beta\<close> everywhere, and the objective value is the design it is given,
  so that the history records the sharpness \<open>f\<close> was called with.\<close>

definition probe_library :: "unit library" where
  "probe_library =
     sample_library
       \<lparr>tanh_projection := (\<lambda>A beta eta. Inr (amap (\<lambda>v. beta) A)),
        opt_call := (\<lambda>rhos need_gradient w.
                       (Inr (map complex_of_real (concat rhos), \<lparr>nrows = 0, ncols = 0, adata = []\<rparr>), w))\<rparr>"

section \<open>The bitmasks, point by point\<close>

text \<open>What the specification says of a grid point with coordinates \<open>x\<close> and \<open>y\<close>: it is
  on the silicon mask when it is on the left edge within half a waveguide width of the
  axis, or on the right edge within half a waveguide width of either arm; it is on the
  border when it is on one of the four edges of the design region.\<close>

definition Si_point :: "params \<Rightarrow> real \<Rightarrow> real \<Rightarrow> bool" where
  "Si_point P x y =
     (x = - design_region_width P / 2 \<and> \<bar>y\<bar> \<le> waveguide_width P / 2
      \<or> x = design_region_width P / 2
        \<and> (\<bar>y - arm_separation P / 2\<bar> \<le> waveguide_width P / 2
           \<or> \<bar>y - (- arm_separation P / 2)\<bar> \<le> waveguide_width P / 2))"

definition border_point :: "params \<Rightarrow> real \<Rightarrow> real \<Rightarrow> bool" where
  "border_point P x y =
     (x = - design_region_width P / 2 \<or> x = design_region_width P / 2
      \<or> y = - design_region_height P / 2 \<or> y = design_region_height P / 2)"


section \<open>Arrays: shapes and elements\<close>

lemma concat_rows_length:
  "(\<And>x. x \<in> set xs \<Longrightarrow> length (h x) = c) \<Longrightarrow> length (concat (map h xs)) = length xs * c"
  by (induction xs) auto

lemma concat_rows_nth:
  "(\<And>x. x \<in> set xs \<Longrightarrow> length (h x) = c) \<Longrightarrow> k < length xs * c \<Longrightarrow>
   concat (map h xs) ! k = h (xs ! (k div c)) ! (k mod c)"
proof (induction xs arbitrary: k)
  case Nil
  then show ?case by simp
next
  case (Cons x xs)
  have c: "0 < c" using Cons.prems(2) by (cases c) auto
  show ?case
  proof (cases "k < c")
    case True
    then show ?thesis using Cons.prems(1) by (simp add: nth_append)
  next
    case False
    then have kc: "c \<le> k" by simp
    have lt: "k - c < length xs * c" using Cons.prems(2) kc by simp
    have d: "k div c = Suc ((k - c) div c)" using kc c by (simp add: le_div_geq)
    have m: "k mod c = (k - c) mod c" using kc by (simp add: le_mod_geq)
    have "concat (map h (x # xs)) ! k = concat (map h xs) ! (k - c)"
      using False Cons.prems(1) by (simp add: nth_append)
    also have "\<dots> = h (xs ! ((k - c) div c)) ! ((k - c) mod c)"
      using Cons.IH[OF _ lt] Cons.prems(1) by simp
    finally show ?thesis by (simp add: d m)
  qed
qed

lemma length_adata_tabulate2 [simp]: "length (adata (tabulate2 r c g)) = r * c"
  using concat_rows_length[of "[0..<r]" "\<lambda>i. map (\<lambda>j. g i j) [0..<c]" c]
  by (simp add: tabulate2_def)

lemma nrows_tabulate2 [simp]: "nrows (tabulate2 r c g) = r"
  by (simp add: tabulate2_def)

lemma ncols_tabulate2 [simp]: "ncols (tabulate2 r c g) = c"
  by (simp add: tabulate2_def)

lemma adata_tabulate2_nth:
  assumes "k < r * c"
  shows "adata (tabulate2 r c g) ! k = g (k div c) (k mod c)"
proof -
  have c: "0 < c" using assms by (cases c) auto
  have d: "k div c < r" using assms c by (simp add: less_mult_imp_div_less)
  have m: "k mod c < c" using c by simp
  have "adata (tabulate2 r c g) ! k
        = map (\<lambda>j. g ([0..<r] ! (k div c)) j) [0..<c] ! (k mod c)"
    unfolding tabulate2_def
    using concat_rows_nth[of "[0..<r]" "\<lambda>i. map (\<lambda>j. g i j) [0..<c]" c k] assms
    by simp
  then show ?thesis using d m by simp
qed

lemma elem_tabulate2 [simp]:
  assumes "i < r" "j < c"
  shows "elem (tabulate2 r c g) i j = g i j"
proof -
  have "i * c + j < r * c"
  proof -
    have "i * c + j < i * c + c" using assms by simp
    also have "\<dots> = Suc i * c" by simp
    also have "\<dots> \<le> r * c" using assms(1) by (intro mult_le_mono1) simp
    finally show ?thesis .
  qed
  then show ?thesis using assms by (simp add: elem_def adata_tabulate2_nth)
qed

lemma belem_tabulate2 [simp]:
  "i < r \<Longrightarrow> j < c \<Longrightarrow> belem (tabulate2 r c g) i j = g i j"
  by (auto simp: belem_def)

lemma tabulate2_cong:
  "(\<And>i j. i < r \<Longrightarrow> j < c \<Longrightarrow> g i j = h i j) \<Longrightarrow> tabulate2 r c g = tabulate2 r c h"
  unfolding tabulate2_def by (auto intro!: arg_cong[where f=concat])

lemma bcast_dim_simps [simp]:
  "bcast_dim m m = Inr m" "bcast_dim m 1 = Inr m" "bcast_dim 1 n = Inr n"
  "bcast_dim m (Suc 0) = Inr m" "bcast_dim (Suc 0) n = Inr n"
  by (auto simp: bcast_dim_def)

lemma rbind_Inr [simp]: "rbind (Inr v) k = k v"
  by (simp add: rbind_def)

lemma rbind_Inl [simp]: "rbind (Inl e) k = Inl e"
  by (simp add: rbind_def)

lemma belem_tabulate2_col:
  "i < r \<Longrightarrow> belem (tabulate2 r (Suc 0) g) i j = g i 0"
  by (auto simp: belem_def)

lemma belem_column:
  "i < length xs \<Longrightarrow> belem \<lparr>nrows = length xs, ncols = Suc 0, adata = map p xs\<rparr> i j = p (xs ! i)"
  by (auto simp: belem_def elem_def)

lemma belem_row:
  "j < length ys \<Longrightarrow> belem \<lparr>nrows = Suc 0, ncols = length ys, adata = map q ys\<rparr> i j = q (ys ! j)"
  by (auto simp: belem_def elem_def)

lemma col_and_row:
  "logical_and (amap p \<lparr>nrows = length xs, ncols = 1, adata = xs\<rparr>)
               (amap q \<lparr>nrows = 1, ncols = length ys, adata = ys\<rparr>)
   = Inr (tabulate2 (length xs) (length ys) (\<lambda>i j. p (xs ! i) \<and> q (ys ! j)))"
  by (auto simp: logical_and_def bcast2_def amap_def belem_column belem_row intro!: tabulate2_cong)

lemma or_same_shape:
  "logical_or (tabulate2 r c g) (tabulate2 r c h) = Inr (tabulate2 r c (\<lambda>i j. g i j \<or> h i j))"
  by (auto simp: logical_or_def bcast2_def intro!: tabulate2_cong)

lemma Si_mask_eq:
  "Si_mask P \<lparr>nrows = length xs, ncols = 1, adata = xs\<rparr> \<lparr>nrows = 1, ncols = length ys, adata = ys\<rparr>
   = Inr (tabulate2 (length xs) (length ys) (\<lambda>i j.
        (xs ! i = - design_region_width P / 2 \<and> \<bar>ys ! j\<bar> \<le> waveguide_width P / 2
         \<or> xs ! i = design_region_width P / 2 \<and> \<bar>ys ! j + arm_separation P / 2\<bar> \<le> waveguide_width P / 2)
         \<or> xs ! i = design_region_width P / 2 \<and> \<bar>ys ! j - arm_separation P / 2\<bar> \<le> waveguide_width P / 2))"
  by (simp only: Si_mask_def left_wg_mask_def top_right_wg_mask_def bottom_right_wg_mask_def
      col_and_row or_same_shape rbind_Inr)

lemma col_or_col:
  "logical_or (amap p \<lparr>nrows = length xs, ncols = 1, adata = xs\<rparr>)
              (amap q \<lparr>nrows = length xs, ncols = 1, adata = xs\<rparr>)
   = Inr (tabulate2 (length xs) 1 (\<lambda>i j. p (xs ! i) \<or> q (xs ! i)))"
  by (auto simp: logical_or_def bcast2_def amap_def belem_column intro!: tabulate2_cong)

lemma col_or_row:
  "logical_or (tabulate2 r 1 g) (amap q \<lparr>nrows = 1, ncols = length ys, adata = ys\<rparr>)
   = Inr (tabulate2 r (length ys) (\<lambda>i j. g i 0 \<or> q (ys ! j)))"
  by (auto simp: logical_or_def bcast2_def amap_def belem_tabulate2_col belem_row intro!: tabulate2_cong)

lemma full_or_row:
  "logical_or (tabulate2 r (length ys) g) (amap q \<lparr>nrows = 1, ncols = length ys, adata = ys\<rparr>)
   = Inr (tabulate2 r (length ys) (\<lambda>i j. g i j \<or> q (ys ! j)))"
  by (auto simp: logical_or_def bcast2_def amap_def belem_row intro!: tabulate2_cong)

lemma border_mask_eq:
  "border_mask P \<lparr>nrows = length xs, ncols = 1, adata = xs\<rparr> \<lparr>nrows = 1, ncols = length ys, adata = ys\<rparr>
   = Inr (tabulate2 (length xs) (length ys) (\<lambda>i j.
        ((xs ! i = - design_region_width P / 2 \<or> xs ! i = design_region_width P / 2)
         \<or> ys ! j = - design_region_height P / 2) \<or> ys ! j = design_region_height P / 2))"
  by (simp only: border_mask_def col_or_col col_or_row full_or_row rbind_Inr)

lemma SiO2_mask_eq:
  "SiO2_mask (tabulate2 r c b) (tabulate2 r c s)
   = Inr (tabulate2 r c (\<lambda>i j. if s i j then False else b i j))"
  by (auto simp: SiO2_mask_def mask_assign2_def intro!: tabulate2_cong)

section \<open>The bitmasks and the bounds\<close>

lemma linspace_ok: "0 \<le> num \<Longrightarrow> \<exists>xs. linspace a b num = Inr xs \<and> length xs = nat num"
  by (simp add: linspace_def Let_def)

lemma bitmasks_eq:
  assumes "x_g P = Inr xs" "y_g P = Inr ys"
  shows "bitmasks P =
     Inr (tabulate2 (length xs) (length ys) (\<lambda>i j.
        (xs ! i = - design_region_width P / 2 \<and> \<bar>ys ! j\<bar> \<le> waveguide_width P / 2
         \<or> xs ! i = design_region_width P / 2 \<and> \<bar>ys ! j + arm_separation P / 2\<bar> \<le> waveguide_width P / 2)
         \<or> xs ! i = design_region_width P / 2 \<and> \<bar>ys ! j - arm_separation P / 2\<bar> \<le> waveguide_width P / 2),
       tabulate2 (length xs) (length ys) (\<lambda>i j.
        ((xs ! i = - design_region_width P / 2 \<or> xs ! i = design_region_width P / 2)
         \<or> ys ! j = - design_region_height P / 2) \<or> ys ! j = design_region_height P / 2),
       tabulate2 (length xs) (length ys) (\<lambda>i j.
        if (xs ! i = - design_region_width P / 2 \<and> \<bar>ys ! j\<bar> \<le> waveguide_width P / 2
         \<or> xs ! i = design_region_width P / 2 \<and> \<bar>ys ! j + arm_separation P / 2\<bar> \<le> waveguide_width P / 2)
         \<or> xs ! i = design_region_width P / 2 \<and> \<bar>ys ! j - arm_separation P / 2\<bar> \<le> waveguide_width P / 2
        then False
        else ((xs ! i = - design_region_width P / 2 \<or> xs ! i = design_region_width P / 2)
         \<or> ys ! j = - design_region_height P / 2) \<or> ys ! j = design_region_height P / 2))"
  unfolding bitmasks_def assms meshgrid_sparse_ij_def
  by (simp only: rbind_Inr prod.case Si_mask_eq border_mask_eq SiO2_mask_eq)

lemma notebook_grid: "Nx notebook_params = 250" "Ny notebook_params = 250"
  by (simp_all add: Nx_def Ny_def py_int_def design_region_resolution_def notebook_params_def)

text \<open>
  C7. On the \<open>Nx\<close> by \<open>Ny\<close> design grid the bitmasks are pointwise coordinate tests:
  \<open>Si_mask\<close> holds at a grid point exactly when the point is on the left edge with
  \<open>|y| \<le> waveguide_width / 2\<close>, or on the right edge with \<open>y\<close> within
  \<open>waveguide_width / 2\<close> of \<open>+arm_separation / 2\<close> or of \<open>-arm_separation / 2\<close>;
  \<open>border_mask\<close> holds exactly when the point is on one of the four edges. The cell
  raises nothing when the grid dimensions are not negative.
\<close>

theorem bitmasks_pointwise:
  assumes "0 \<le> Nx P" "0 \<le> Ny P"
  shows "\<exists>xs ys Si border SiO2.
           x_g P = Inr xs \<and> y_g P = Inr ys \<and> length xs = nat (Nx P) \<and> length ys = nat (Ny P) \<and>
           bitmasks P = Inr (Si, border, SiO2) \<and>
           nrows Si = nat (Nx P) \<and> ncols Si = nat (Ny P) \<and>
           nrows border = nat (Nx P) \<and> ncols border = nat (Ny P) \<and>
           (\<forall>i<nat (Nx P). \<forall>j<nat (Ny P).
               elem Si i j = Si_point P (xs ! i) (ys ! j) \<and>
               elem border i j = border_point P (xs ! i) (ys ! j))"
proof -
  obtain xs where xs: "x_g P = Inr xs" "length xs = nat (Nx P)"
    using linspace_ok[OF assms(1)] unfolding x_g_def by blast
  obtain ys where ys: "y_g P = Inr ys" "length ys = nat (Ny P)"
    using linspace_ok[OF assms(2)] unfolding y_g_def by blast
  define s where "s = (\<lambda>i j.
        (xs ! i = - design_region_width P / 2 \<and> \<bar>ys ! j\<bar> \<le> waveguide_width P / 2
         \<or> xs ! i = design_region_width P / 2 \<and> \<bar>ys ! j + arm_separation P / 2\<bar> \<le> waveguide_width P / 2)
         \<or> xs ! i = design_region_width P / 2 \<and> \<bar>ys ! j - arm_separation P / 2\<bar> \<le> waveguide_width P / 2)"
  define b where "b = (\<lambda>i j.
        ((xs ! i = - design_region_width P / 2 \<or> xs ! i = design_region_width P / 2)
         \<or> ys ! j = - design_region_height P / 2) \<or> ys ! j = design_region_height P / 2)"
  define Si where "Si = tabulate2 (nat (Nx P)) (nat (Ny P)) s"
  define border where "border = tabulate2 (nat (Nx P)) (nat (Ny P)) b"
  define SiO2 where "SiO2 = tabulate2 (nat (Nx P)) (nat (Ny P)) (\<lambda>i j. if s i j then False else b i j)"
  have bm: "bitmasks P = Inr (Si, border, SiO2)"
    using bitmasks_eq[OF xs(1) ys(1)] unfolding xs(2) ys(2) Si_def border_def SiO2_def s_def b_def .
  have shape: "nrows Si = nat (Nx P)" "ncols Si = nat (Ny P)"
    "nrows border = nat (Nx P)" "ncols border = nat (Ny P)"
    by (simp_all add: Si_def border_def)
  have sp: "s i j = Si_point P (xs ! i) (ys ! j)" for i j
    by (auto simp: s_def Si_point_def)
  have bp: "b i j = border_point P (xs ! i) (ys ! j)" for i j
    by (auto simp: b_def border_point_def)
  have pt: "elem Si i j = Si_point P (xs ! i) (ys ! j) \<and>
            elem border i j = border_point P (xs ! i) (ys ! j)"
    if "i < nat (Nx P)" "j < nat (Ny P)" for i j
    using that sp[of i j] bp[of i j] unfolding Si_def border_def
    by (simp only: elem_tabulate2)
  show ?thesis
    using xs ys bm shape pt by blast
qed

theorem bitmasks_pointwise_witness:
  "0 \<le> Nx notebook_params \<and> 0 \<le> Ny notebook_params \<and>
   (\<exists>xs ys Si border SiO2.
           x_g notebook_params = Inr xs \<and> y_g notebook_params = Inr ys \<and> length xs = 250 \<and> length ys = 250 \<and>
           bitmasks notebook_params = Inr (Si, border, SiO2) \<and>
           nrows Si = 250 \<and> ncols Si = 250 \<and>
           nrows border = 250 \<and> ncols border = 250 \<and>
           (\<forall>i<250. \<forall>j<250.
               elem Si i j = Si_point notebook_params (xs ! i) (ys ! j) \<and>
               elem border i j = border_point notebook_params (xs ! i) (ys ! j)))"
proof -
  have h: "0 \<le> Nx notebook_params" "0 \<le> Ny notebook_params"
    by (simp_all add: notebook_grid)
  show ?thesis
    using h bitmasks_pointwise[OF h] by (simp add: notebook_grid)
qed


text \<open>
  C9. \<open>SiO2_mask\<close> is \<open>border_mask\<close> with the \<open>Si_mask\<close> points cleared; at no grid point
  are \<open>Si_mask\<close> and \<open>SiO2_mask\<close> both true; every \<open>Si_mask\<close> point is a border point, on
  the left or the right edge; and \<open>Si_mask\<close> or \<open>SiO2_mask\<close> is \<open>border_mask\<close>.
\<close>

theorem masks_partition_border:
  assumes "0 \<le> Nx P" "0 \<le> Ny P"
  shows "\<exists>xs ys Si border SiO2.
           x_g P = Inr xs \<and> y_g P = Inr ys \<and> bitmasks P = Inr (Si, border, SiO2) \<and>
           SiO2_mask border Si = Inr SiO2 \<and>
           (\<forall>i<nat (Nx P). \<forall>j<nat (Ny P).
               elem SiO2 i j = (elem border i j \<and> \<not> elem Si i j) \<and>
               \<not> (elem Si i j \<and> elem SiO2 i j) \<and>
               (elem Si i j \<longrightarrow> elem border i j) \<and>
               (elem Si i j \<longrightarrow> xs ! i = - design_region_width P / 2 \<or> xs ! i = design_region_width P / 2) \<and>
               (elem Si i j \<or> elem SiO2 i j) = elem border i j)"
proof -
  obtain xs where xs: "x_g P = Inr xs" "length xs = nat (Nx P)"
    using linspace_ok[OF assms(1)] unfolding x_g_def by blast
  obtain ys where ys: "y_g P = Inr ys" "length ys = nat (Ny P)"
    using linspace_ok[OF assms(2)] unfolding y_g_def by blast
  define s where "s = (\<lambda>i j.
        (xs ! i = - design_region_width P / 2 \<and> \<bar>ys ! j\<bar> \<le> waveguide_width P / 2
         \<or> xs ! i = design_region_width P / 2 \<and> \<bar>ys ! j + arm_separation P / 2\<bar> \<le> waveguide_width P / 2)
         \<or> xs ! i = design_region_width P / 2 \<and> \<bar>ys ! j - arm_separation P / 2\<bar> \<le> waveguide_width P / 2)"
  define b where "b = (\<lambda>i j.
        ((xs ! i = - design_region_width P / 2 \<or> xs ! i = design_region_width P / 2)
         \<or> ys ! j = - design_region_height P / 2) \<or> ys ! j = design_region_height P / 2)"
  define Si where "Si = tabulate2 (nat (Nx P)) (nat (Ny P)) s"
  define border where "border = tabulate2 (nat (Nx P)) (nat (Ny P)) b"
  define SiO2 where "SiO2 = tabulate2 (nat (Nx P)) (nat (Ny P)) (\<lambda>i j. if s i j then False else b i j)"
  have bm: "bitmasks P = Inr (Si, border, SiO2)"
    using bitmasks_eq[OF xs(1) ys(1)] unfolding xs(2) ys(2) Si_def border_def SiO2_def s_def b_def .
  have so: "SiO2_mask border Si = Inr SiO2"
    unfolding Si_def border_def SiO2_def by (rule SiO2_mask_eq)
  have sb: "s i j \<longrightarrow> b i j" for i j
    by (auto simp: s_def b_def)
  have sx: "s i j \<longrightarrow> xs ! i = - design_region_width P / 2 \<or> xs ! i = design_region_width P / 2" for i j
    by (auto simp: s_def)
  have pt: "elem SiO2 i j = (elem border i j \<and> \<not> elem Si i j) \<and>
            \<not> (elem Si i j \<and> elem SiO2 i j) \<and>
            (elem Si i j \<longrightarrow> elem border i j) \<and>
            (elem Si i j \<longrightarrow> xs ! i = - design_region_width P / 2 \<or> xs ! i = design_region_width P / 2) \<and>
            (elem Si i j \<or> elem SiO2 i j) = elem border i j"
    if "i < nat (Nx P)" "j < nat (Ny P)" for i j
    using that sb[of i j] sx[of i j] unfolding Si_def border_def SiO2_def
    by (simp only: elem_tabulate2) (cases "s i j"; simp)
  show ?thesis
    using xs(1) ys(1) bm so pt by blast
qed

lemma design_setup_eq:
  assumes n: "0 \<le> Nx P" "0 \<le> Ny P"
    and bm: "bitmasks P = Inr (Si, border, SiO2)"
    and len: "length (adata Si) = nat (Nx P * Ny P)" "length (adata SiO2) = nat (Nx P * Ny P)"
  shows "\<exists>x lb ub. design_setup P = Inr (x, lb, ub) \<and>
           length x = nat (Nx P * Ny P) \<and> length lb = nat (Nx P * Ny P) \<and> length ub = nat (Nx P * Ny P) \<and>
           (\<forall>k<nat (Nx P * Ny P).
              x ! k = (if flatten SiO2 ! k then 0 else if flatten Si ! k then 1 else 0.5) \<and>
              lb ! k = (if flatten Si ! k then 1 else 0) \<and>
              ub ! k = (if flatten SiO2 ! k then 0 else 1))"
proof -
  have nn: "0 \<le> Nx P * Ny P" using n by simp
  show ?thesis
    using nn len
    by (simp add: design_setup_def bm initial_guess_def lower_bounds_def upper_bounds_def
        np_full_def mask_assign_def flatten_def)
qed

theorem masks_partition_border_witness:
  "0 \<le> Nx notebook_params \<and> 0 \<le> Ny notebook_params \<and>
   (\<exists>xs ys Si border SiO2.
           x_g notebook_params = Inr xs \<and> y_g notebook_params = Inr ys \<and>
           bitmasks notebook_params = Inr (Si, border, SiO2) \<and>
           SiO2_mask border Si = Inr SiO2 \<and>
           (\<forall>i<250. \<forall>j<250.
               elem SiO2 i j = (elem border i j \<and> \<not> elem Si i j) \<and>
               \<not> (elem Si i j \<and> elem SiO2 i j) \<and>
               (elem Si i j \<longrightarrow> elem border i j) \<and>
               (elem Si i j \<longrightarrow> xs ! i = - 5 / 4 \<or> xs ! i = 5 / 4) \<and>
               (elem Si i j \<or> elem SiO2 i j) = elem border i j))"
proof -
  have h: "0 \<le> Nx notebook_params" "0 \<le> Ny notebook_params"
    by (simp_all add: notebook_grid)
  have w: "design_region_width notebook_params = 5 / 2"
    by (simp add: notebook_params_def)
  show ?thesis
    using h masks_partition_border[OF h] by (simp add: notebook_grid w)
qed


text \<open>
  C2. When the optimisation loop starts, \<open>x\<close>, \<open>lb\<close> and \<open>ub\<close> all have length \<open>Nx * Ny\<close>
  and \<open>lb[i] \<le> x[i] \<le> ub[i]\<close> at every index: \<open>lb\<close> is 0 except 1 on the \<open>Si_mask\<close>
  indices, \<open>ub\<close> is 1 except 0 on the \<open>SiO2_mask\<close> indices, and \<open>x\<close> is 0.5 except 1 on
  the \<open>Si_mask\<close> and 0 on the \<open>SiO2_mask\<close> indices.
\<close>

theorem design_bounds_ordered:
  assumes "0 \<le> Nx P" "0 \<le> Ny P"
  shows "\<exists>Si border SiO2 x lb ub.
           bitmasks P = Inr (Si, border, SiO2) \<and> design_setup P = Inr (x, lb, ub) \<and>
           length x = nat (Nx P * Ny P) \<and> length lb = nat (Nx P * Ny P) \<and>
           length ub = nat (Nx P * Ny P) \<and>
           length (flatten Si) = nat (Nx P * Ny P) \<and> length (flatten SiO2) = nat (Nx P * Ny P) \<and>
           (\<forall>k<nat (Nx P * Ny P).
              lb ! k \<le> x ! k \<and> x ! k \<le> ub ! k \<and>
              lb ! k = (if flatten Si ! k then 1 else 0) \<and>
              ub ! k = (if flatten SiO2 ! k then 0 else 1) \<and>
              x ! k = (if flatten Si ! k then 1 else if flatten SiO2 ! k then 0 else 0.5))"
proof -
  obtain xs where xs: "x_g P = Inr xs" "length xs = nat (Nx P)"
    using linspace_ok[OF assms(1)] unfolding x_g_def by blast
  obtain ys where ys: "y_g P = Inr ys" "length ys = nat (Ny P)"
    using linspace_ok[OF assms(2)] unfolding y_g_def by blast
  obtain s b :: "nat \<Rightarrow> nat \<Rightarrow> bool" where
    bm: "bitmasks P = Inr (tabulate2 (nat (Nx P)) (nat (Ny P)) s,
                           tabulate2 (nat (Nx P)) (nat (Ny P)) b,
                           tabulate2 (nat (Nx P)) (nat (Ny P)) (\<lambda>i j. if s i j then False else b i j))"
    using bitmasks_eq[OF xs(1) ys(1)] unfolding xs(2) ys(2) by blast
  define Si where "Si = tabulate2 (nat (Nx P)) (nat (Ny P)) s"
  define border where "border = tabulate2 (nat (Nx P)) (nat (Ny P)) b"
  define SiO2 where "SiO2 = tabulate2 (nat (Nx P)) (nat (Ny P)) (\<lambda>i j. if s i j then False else b i j)"
  have n: "nat (Nx P) * nat (Ny P) = nat (Nx P * Ny P)"
    using assms by (simp add: nat_mult_distrib)
  have lens: "length (adata Si) = nat (Nx P * Ny P)" "length (adata SiO2) = nat (Nx P * Ny P)"
    by (simp_all add: Si_def SiO2_def n)
  have bm': "bitmasks P = Inr (Si, border, SiO2)"
    using bm by (simp only: Si_def border_def SiO2_def)
  have disj: "\<not> (flatten Si ! k \<and> flatten SiO2 ! k)" if "k < nat (Nx P * Ny P)" for k
  proof -
    have k: "k < nat (Nx P) * nat (Ny P)" using that n by simp
    show ?thesis
      unfolding flatten_def Si_def SiO2_def by (simp add: adata_tabulate2_nth[OF k])
  qed
  obtain x lb ub where ds: "design_setup P = Inr (x, lb, ub)"
    "length x = nat (Nx P * Ny P)" "length lb = nat (Nx P * Ny P)" "length ub = nat (Nx P * Ny P)"
    and vals: "\<And>k. k < nat (Nx P * Ny P) \<Longrightarrow>
              x ! k = (if flatten SiO2 ! k then 0 else if flatten Si ! k then 1 else 0.5) \<and>
              lb ! k = (if flatten Si ! k then 1 else 0) \<and>
              ub ! k = (if flatten SiO2 ! k then 0 else 1)"
    using design_setup_eq[OF assms bm' lens] by blast
  have pt: "lb ! k \<le> x ! k \<and> x ! k \<le> ub ! k \<and>
              lb ! k = (if flatten Si ! k then 1 else 0) \<and>
              ub ! k = (if flatten SiO2 ! k then 0 else 1) \<and>
              x ! k = (if flatten Si ! k then 1 else if flatten SiO2 ! k then 0 else 0.5)"
    if "k < nat (Nx P * Ny P)" for k
    using vals[OF that] disj[OF that] by auto
  show ?thesis
    using bm' ds lens pt unfolding flatten_def by blast
qed

theorem design_bounds_ordered_witness:
  "0 \<le> Nx notebook_params \<and> 0 \<le> Ny notebook_params \<and>
   (\<exists>Si border SiO2 x lb ub.
           bitmasks notebook_params = Inr (Si, border, SiO2) \<and>
           design_setup notebook_params = Inr (x, lb, ub) \<and>
           length x = 62500 \<and> length lb = 62500 \<and> length ub = 62500 \<and>
           (\<forall>k<62500. lb ! k \<le> x ! k \<and> x ! k \<le> ub ! k))"
proof -
  have h: "0 \<le> Nx notebook_params" "0 \<le> Ny notebook_params"
    by (simp_all add: notebook_grid)
  show ?thesis
    using h design_bounds_ordered[OF h] by (simp add: notebook_grid) blast
qed

subsection \<open>The edges in grid indices\<close>

text \<open>
  In exact arithmetic the samples of \<open>np.linspace\<close> meet the end points of an interval of
  positive length at the first and the last index only, so that the border mask of a
  grid with at least two samples a side is the frame of the index grid.
\<close>

lemma linspace_endpoints:
  assumes "2 \<le> num" "linspace a b num = Inr xs"
  shows "xs ! 0 = a" "xs ! (nat num - 1) = b"
  using assms by (auto simp: linspace_def Let_def nth_list_update split: if_splits)

lemma linspace_interior:
  assumes "2 \<le> num" "linspace a b num = Inr xs" "a < b" "i < nat num"
  shows "xs ! i = a \<longleftrightarrow> i = 0" "xs ! i = b \<longleftrightarrow> i = nat num - 1"
proof -
  let ?n = "nat num"
  have n: "2 \<le> ?n" using assms(1) by simp
  have xs: "xs = (map (\<lambda>i. real i * ((b - a) / real (?n - 1)) + a) [0..<?n])[?n - 1 := b]"
    using assms(1,2) by (auto simp: linspace_def Let_def split: if_splits)
  have step: "0 < (b - a) / real (?n - 1)" using assms(3) n by simp
  have val: "xs ! i = (if i = ?n - 1 then b else real i * ((b - a) / real (?n - 1)) + a)"
    using assms(4) by (simp add: xs nth_list_update)
  show "xs ! i = a \<longleftrightarrow> i = 0"
  proof (cases "i = ?n - 1")
    case True
    then show ?thesis using val assms(3) n by auto
  next
    case False
    then show ?thesis using val step by auto
  qed
  show "xs ! i = b \<longleftrightarrow> i = ?n - 1"
  proof (cases "i = ?n - 1")
    case True
    then show ?thesis using val by simp
  next
    case False
    then have lt: "real i < real (?n - 1)" using assms(4) by simp
    have "real i * ((b - a) / real (?n - 1)) < real (?n - 1) * ((b - a) / real (?n - 1))"
      using lt step by (rule mult_strict_right_mono)
    also have "\<dots> = b - a" using n by simp
    finally have "real i * ((b - a) / real (?n - 1)) + a < b" by simp
    then show ?thesis using val False by simp
  qed
qed

lemma border_mask_grid_frame:
  assumes "2 \<le> Nx P" "2 \<le> Ny P" "0 < design_region_width P" "0 < design_region_height P"
  shows "\<exists>Si border SiO2. bitmasks P = Inr (Si, border, SiO2) \<and>
           (\<forall>i<nat (Nx P). \<forall>j<nat (Ny P).
              elem border i j = (i = 0 \<or> i = nat (Nx P) - 1 \<or> j = 0 \<or> j = nat (Ny P) - 1))"
proof -
  have nn: "0 \<le> Nx P" "0 \<le> Ny P" using assms(1,2) by simp_all
  obtain xs where xs: "x_g P = Inr xs" "length xs = nat (Nx P)"
    using linspace_ok[OF nn(1)] unfolding x_g_def by blast
  obtain ys where ys: "y_g P = Inr ys" "length ys = nat (Ny P)"
    using linspace_ok[OF nn(2)] unfolding y_g_def by blast
  have lx: "- design_region_width P / 2 < design_region_width P / 2"
    and ly: "- design_region_height P / 2 < design_region_height P / 2"
    using assms(3,4) by simp_all
  note ix = linspace_interior[OF assms(1) xs(1)[unfolded x_g_def] lx]
  note iy = linspace_interior[OF assms(2) ys(1)[unfolded y_g_def] ly]
  obtain Si SiO2 where bm: "bitmasks P = Inr (Si,
       tabulate2 (nat (Nx P)) (nat (Ny P)) (\<lambda>i j.
        ((xs ! i = - design_region_width P / 2 \<or> xs ! i = design_region_width P / 2)
         \<or> ys ! j = - design_region_height P / 2) \<or> ys ! j = design_region_height P / 2), SiO2)"
    using bitmasks_eq[OF xs(1) ys(1)] unfolding xs(2) ys(2) by blast
  have "elem (tabulate2 (nat (Nx P)) (nat (Ny P)) (\<lambda>i j.
        ((xs ! i = - design_region_width P / 2 \<or> xs ! i = design_region_width P / 2)
         \<or> ys ! j = - design_region_height P / 2) \<or> ys ! j = design_region_height P / 2)) i j
        = (i = 0 \<or> i = nat (Nx P) - 1 \<or> j = 0 \<or> j = nat (Ny P) - 1)"
    if "i < nat (Nx P)" "j < nat (Ny P)" for i j
    using that ix[OF that(1)] iy[OF that(2)] by (simp only: elem_tabulate2) blast
  with bm show ?thesis by blast
qed

section \<open>The mapping and the objective\<close>

lemma bcast1_same_length:
  "length xs = length ys \<Longrightarrow> bcast1 g xs ys = Inr (map (\<lambda>(x, y). g x y) (zip xs ys))"
  by (simp add: bcast1_def)

lemma J_same_length:
  assumes "length top_coef = length source_coef" "length bottom_coef = length source_coef"
  shows "J source_coef top_coef bottom_coef =
           Inr (mean (map (\<lambda>i. (cmod (top_coef ! i / source_coef ! i))\<^sup>2
                               + (cmod (bottom_coef ! i / source_coef ! i))\<^sup>2)
                          [0..<length source_coef]))"
proof -
  let ?n = "length source_coef"
  have "map (\<lambda>(x, y). x + y)
          (zip (map (\<lambda>z. (cmod z)\<^sup>2) (map (\<lambda>(x, y). x / y) (zip top_coef source_coef)))
               (map (\<lambda>z. (cmod z)\<^sup>2) (map (\<lambda>(x, y). x / y) (zip bottom_coef source_coef))))
        = map (\<lambda>i. (cmod (top_coef ! i / source_coef ! i))\<^sup>2
                   + (cmod (bottom_coef ! i / source_coef ! i))\<^sup>2) [0..<?n]"
    using assms by (intro nth_equalityI) simp_all
  then show ?thesis
    using assms by (simp add: J_def bcast1_same_length)
qed

text \<open>
  C5. For coefficient arrays of one length over the frequencies, with no zero in \<open>source\<close>,
  \<open>J(source, top, bottom)\<close> is the arithmetic mean over the frequencies of
  \<open>|top / source|\<^sup>2 + |bottom / source|\<^sup>2\<close>; it depends on nothing but its three arguments
  and is the same when \<open>top\<close> and \<open>bottom\<close> are exchanged.
\<close>

theorem J_mean_power:
  assumes "length top_coef = length source_coef" "length bottom_coef = length source_coef"
    and "source_coef \<noteq> []" "\<forall>z \<in> set source_coef. z \<noteq> 0"
  shows "J source_coef top_coef bottom_coef =
           Inr ((\<Sum>i<length source_coef.
                   (cmod (top_coef ! i / source_coef ! i))\<^sup>2
                   + (cmod (bottom_coef ! i / source_coef ! i))\<^sup>2) / real (length source_coef))
         \<and> J source_coef top_coef bottom_coef = J source_coef bottom_coef top_coef"
proof -
  have sym: "J source_coef top_coef bottom_coef = J source_coef bottom_coef top_coef"
    unfolding J_same_length[OF assms(1,2)] J_same_length[OF assms(2,1)]
    by (simp add: add.commute)
  have "J source_coef top_coef bottom_coef =
           Inr ((\<Sum>i<length source_coef.
                   (cmod (top_coef ! i / source_coef ! i))\<^sup>2
                   + (cmod (bottom_coef ! i / source_coef ! i))\<^sup>2) / real (length source_coef))"
    unfolding J_same_length[OF assms(1,2)]
    by (simp add: mean_def sum_list_sum_nth atLeast0LessThan)
  with sym show ?thesis by simp
qed

theorem J_mean_power_witness:
  "length [1, \<i>] = length [1, 2 :: complex] \<and> length [0, 2 :: complex] = length [1, 2 :: complex]
   \<and> [1, 2 :: complex] \<noteq> [] \<and> (1 :: complex) \<noteq> 0 \<and> (2 :: complex) \<noteq> 0
   \<and> J [1, 2] [1, \<i>] [0, 2] = Inr (9 / 8) \<and> J [1, 2] [0, 2] [1, \<i>] = Inr (9 / 8)"
proof -
  have h: "length [1, \<i>] = length [1, 2 :: complex]" "length [0, 2 :: complex] = length [1, 2 :: complex]"
     "[1, 2 :: complex] \<noteq> []" "\<forall>z \<in> set [1, 2 :: complex]. z \<noteq> 0"
    by simp_all
  have two: "(\<Sum>i<2. g i) = g 0 + g (1::nat)" for g :: "nat \<Rightarrow> real"
    by (simp add: numeral_2_eq_2)
  note t = J_mean_power[OF h]
  have v: "J [1, 2] [1, \<i>] [0, 2] = Inr (9 / 8)"
    using conjunct1[OF t] by (simp add: two norm_divide power2_eq_square)
  have sym: "J [1, 2] [1, \<i>] [0, 2] = J [1, 2] [0, 2] [1, \<i>]"
    by (rule conjunct2[OF t])
  have "J [1, 2] [0, 2] [1, \<i>] = J [1, 2] [1, \<i>] [0, 2]"
    by (rule sym[symmetric])
  also have "\<dots> = Inr (9 / 8)" by (rule v)
  finally show ?thesis using h v by simp
qed

text \<open>
  C4. For every design vector \<open>x\<close> and parameters \<open>eta\<close> and \<open>beta\<close>, \<open>mapping(x, eta, beta)\<close> is
  the composition filter, then project, then flatten: the conic filter with the fixed
  radius and design-region dimensions, the projection with steepness \<open>beta\<close> and threshold
  \<open>eta\<close> applied to the filtered field, and the flattened result; nothing else is done, and
  an exception of either stage is the exception of \<open>mapping\<close>.
\<close>

theorem mapping_filter_project_flatten:
  "mapping L P v eta beta = filter_project_flatten L P v eta beta"
  by (simp add: mapping_def filter_project_flatten_def filter_stage_def project_stage_def
      rbind_def flatten_def split: sum.splits)

section \<open>The objective callback: history, counter and errors\<close>

lemma start_state_simps [simp]:
  "cur_beta (start_state x0 w) = 4" "stdout (start_state x0 w) = []"
  "cur_iter (start_state x0 w) = 0" "evaluation_history (start_state x0 w) = []"
  "x_vec (start_state x0 w) = x0" "world (start_state x0 w) = w"
  by (simp_all add: start_state_def)

lemma f_frame:
  assumes "f L P v g b s = (r, s')"
  shows "stdout s' = stdout s @ [Current_iteration (cur_iter s + 1)]"
    and "cur_beta s' = cur_beta s"
    and "x_vec s' = x_vec s"
  using assms
  by (auto simp: f_def Let_def split: sum.splits prod.splits if_splits)

lemma f_raises:
  assumes "f L P v g b s = (Inl e, s')"
  shows "evaluation_history s' = evaluation_history s \<and> cur_iter s' = cur_iter s"
  using assms
  by (auto simp: f_def Let_def split: sum.splits prod.splits if_splits)

lemma f_returns:
  assumes "f L P v g b s = (Inr (r, g'), s')"
  shows "\<exists>rho f0 dJ_du w.
           mapping L P v eta_i (real_of_int b) = Inr rho \<and>
           opt_call L [rho] True (world s) = (Inr (f0, dJ_du), w) \<and>
           f0 \<noteq> [] \<and> r = map Re f0 \<and>
           evaluation_history s' = evaluation_history s @ [Max (set (map Re f0))] \<and>
           cur_iter s' = cur_iter s + 1"
  using assms
  by (auto simp: f_def Let_def np_max_def split: sum.splits prod.splits if_splits)

lemma f_succeeds:
  assumes "mapping L P v eta_i (real_of_int b) = Inr rho"
    and "opt_call L [rho] True (world s) = (Inr (f0, dJ_du), w1)"
    and "plot_design L (cur_iter s) w1 = (Inr u, w2)"
    and "g = [] \<and> g' = [] \<or>
         g \<noteq> [] \<and> rbind (tensor_jacobian_product L (mapping L P) 0 v eta_i (real_of_int b) (sum_axis1 dJ_du))
           (slice_assign g) = Inr g'"
    and "f0 \<noteq> []"
  shows "f L P v g b s =
           (Inr (map Re f0, g'),
            s\<lparr>stdout := stdout s @ [Current_iteration (cur_iter s + 1)],
              world := w2,
              evaluation_history := evaluation_history s @ [Max (set (map Re f0))],
              cur_iter := cur_iter s + 1\<rparr>)"
  using assms
  by (auto simp: f_def Let_def np_max_def)

lemma sample_mapping: "mapping sample_library P v eta beta = Inr v"
  by (simp add: mapping_def sample_library_def flatten_def rbind_def)

lemma sample_f:
  "f sample_library P v v b s =
     (Inr ([1], v),
      s\<lparr>stdout := stdout s @ [Current_iteration (cur_iter s + 1)],
        evaluation_history := evaluation_history s @ [1],
        cur_iter := cur_iter s + 1\<rparr>)"
proof -
  have lib: "opt_call sample_library = (\<lambda>rhos need_gradient w. (Inr ([1], \<lparr>nrows = 0, ncols = 0, adata = []\<rparr>), w))"
    "plot_design sample_library = (\<lambda>i w. (Inr (), w))"
    "tensor_jacobian_product sample_library = (\<lambda>m i v eta beta u. Inr v)"
    by (simp_all add: sample_library_def)
  show ?thesis
    by (simp add: f_def Let_def sample_mapping lib np_max_def slice_assign_def rbind_def)
qed

text \<open>
  C3. The evaluation history is append-only: a call of \<open>f\<close> never removes or changes an
  entry. A call that returns has appended exactly one scalar, the maximum of the real
  parts of the objective value \<open>f0\<close> that the simulation returned, and has incremented
  the counter \<open>cur_iter[0]\<close> by exactly one; and the call returns whenever the wrapped
  library calls do and \<open>f0\<close> is not empty.
\<close>

theorem f_appends_one_scalar:
  assumes "f L P v g b s = (res, s')"
  shows "(\<exists>ys. evaluation_history s' = evaluation_history s @ ys \<and> length ys \<le> 1)
     \<and> (\<forall>r g'. res = Inr (r, g') \<longrightarrow>
          (\<exists>rho f0 dJ_du w1.
              mapping L P v eta_i (real_of_int b) = Inr rho \<and>
              opt_call L [rho] True (world s) = (Inr (f0, dJ_du), w1) \<and> f0 \<noteq> [] \<and> r = map Re f0 \<and>
              evaluation_history s' = evaluation_history s @ [Max (set (map Re f0))] \<and>
              cur_iter s' = cur_iter s + 1))
     \<and> (\<forall>rho f0 dJ_du w1 u w2.
          mapping L P v eta_i (real_of_int b) = Inr rho \<and>
          opt_call L [rho] True (world s) = (Inr (f0, dJ_du), w1) \<and> f0 \<noteq> [] \<and>
          plot_design L (cur_iter s) w1 = (Inr u, w2) \<and>
          (g = [] \<or> (\<exists>g'. rbind (tensor_jacobian_product L (mapping L P) 0 v eta_i
                                      (real_of_int b) (sum_axis1 dJ_du))
                                   (slice_assign g) = Inr g'))
          \<longrightarrow> (\<exists>r g'. res = Inr (r, g')))"
proof -
  have grow: "\<exists>ys. evaluation_history s' = evaluation_history s @ ys \<and> length ys \<le> 1"
  proof (cases res)
    case (Inl e)
    with assms f_raises[of L P v g b s e s'] show ?thesis by simp
  next
    case (Inr p)
    obtain r g' where "p = (r, g')" by (cases p)
    with Inr assms f_returns[of L P v g b s r g' s'] show ?thesis by auto
  qed
  have ret: "\<exists>rho f0 dJ_du w1.
              mapping L P v eta_i (real_of_int b) = Inr rho \<and>
              opt_call L [rho] True (world s) = (Inr (f0, dJ_du), w1) \<and> f0 \<noteq> [] \<and> r = map Re f0 \<and>
              evaluation_history s' = evaluation_history s @ [Max (set (map Re f0))] \<and>
              cur_iter s' = cur_iter s + 1"
    if "res = Inr (r, g')" for r g'
    using assms that by (intro f_returns) simp
  have ok: "\<exists>r g'. res = Inr (r, g')"
    if h: "mapping L P v eta_i (real_of_int b) = Inr rho"
      "opt_call L [rho] True (world s) = (Inr (f0, dJ_du), w1)" "f0 \<noteq> []"
      "plot_design L (cur_iter s) w1 = (Inr u, w2)"
      "g = [] \<or> (\<exists>g'. rbind (tensor_jacobian_product L (mapping L P) 0 v eta_i
                                      (real_of_int b) (sum_axis1 dJ_du))
                                   (slice_assign g) = Inr g')"
    for rho f0 dJ_du w1 u w2
  proof -
    from h(5) obtain g' where
      "g = [] \<and> g' = [] \<or>
         g \<noteq> [] \<and> rbind (tensor_jacobian_product L (mapping L P) 0 v eta_i (real_of_int b) (sum_axis1 dJ_du))
           (slice_assign g) = Inr g'"
      by (cases "g = []") auto
    from f_succeeds[OF h(1,2,4) this h(3)] assms show ?thesis by simp
  qed
  from grow ret ok show ?thesis by blast
qed

theorem f_appends_one_scalar_witness:
  "f sample_library notebook_params [1 / 2] [1 / 2] 4 (start_state [1 / 2] ())
     = (Inr ([1], [1 / 2]),
        \<lparr>evaluation_history = [1], cur_iter = 1, x_vec = [1 / 2], cur_beta = 4,
         stdout = [Current_iteration 1], world = ()\<rparr>)
   \<and> (\<exists>rho f0 dJ_du w1.
         mapping sample_library notebook_params [1 / 2] eta_i 4 = Inr rho \<and>
         opt_call sample_library [rho] True () = (Inr (f0, dJ_du), w1) \<and> f0 \<noteq> [] \<and>
         [1] = map Re f0 \<and> [1] = [] @ [Max (set (map Re f0))] \<and> (1::int) = 0 + 1)"
proof -
  have run: "f sample_library notebook_params [1 / 2] [1 / 2] 4 (start_state [1 / 2] ())
     = (Inr ([1], [1 / 2]),
        \<lparr>evaluation_history = [1], cur_iter = 1, x_vec = [1 / 2], cur_beta = 4,
         stdout = [Current_iteration 1], world = ()\<rparr>)"
    by (simp add: sample_f start_state_def)
  from f_appends_one_scalar[OF run] have
    "\<forall>r g'. Inr ([1], [1 / 2]) = Inr (r, g') \<longrightarrow>
          (\<exists>rho f0 dJ_du w1.
              mapping sample_library notebook_params [1 / 2] eta_i (real_of_int 4) = Inr rho \<and>
              opt_call sample_library [rho] True (world (start_state [1 / 2] ())) = (Inr (f0, dJ_du), w1) \<and>
              f0 \<noteq> [] \<and> r = map Re f0 \<and>
              evaluation_history \<lparr>evaluation_history = [1], cur_iter = 1, x_vec = [1 / 2], cur_beta = 4,
                 stdout = [Current_iteration 1], world = ()\<rparr>
                = evaluation_history (start_state [1 / 2] ()) @ [Max (set (map Re f0))] \<and>
              cur_iter \<lparr>evaluation_history = [1], cur_iter = 1, x_vec = [1 / 2], cur_beta = 4,
                 stdout = [Current_iteration 1], world = ()\<rparr> = cur_iter (start_state [1 / 2] ()) + 1)"
    by blast
  then show ?thesis using run by simp
qed

lemma mapping_error_iff:
  "mapping L P v eta beta = Inl e \<longleftrightarrow>
     conic_filter L v (filter_radius L P) (design_region_width P) (design_region_height P)
        (design_region_resolution P) = Inl e
     \<or> (\<exists>filtered. conic_filter L v (filter_radius L P) (design_region_width P)
           (design_region_height P) (design_region_resolution P) = Inr filtered
         \<and> tanh_projection L filtered beta eta = Inl e)"
  by (auto simp: mapping_def rbind_def split: sum.splits)

lemma J_error_iff:
  "J source_coef top_coef bottom_coef = Inl e \<longleftrightarrow>
     bcast1 (/) top_coef source_coef = Inl e
     \<or> (\<exists>t. bcast1 (/) top_coef source_coef = Inr t
         \<and> (bcast1 (/) bottom_coef source_coef = Inl e
            \<or> (\<exists>b. bcast1 (/) bottom_coef source_coef = Inr b
                \<and> bcast1 (+) (map (\<lambda>z. (cmod z)\<^sup>2) t) (map (\<lambda>z. (cmod z)\<^sup>2) b) = Inl e)))"
  by (auto simp: J_def rbind_def split: sum.splits)

lemma f_error_iff:
  "fst (f L P v g b s) = Inl e \<longleftrightarrow>
     mapping L P v eta_i (real_of_int b) = Inl e
     \<or> (\<exists>rho. mapping L P v eta_i (real_of_int b) = Inr rho
         \<and> (fst (opt_call L [rho] True (world s)) = Inl e
            \<or> (\<exists>f0 dJ_du w1. opt_call L [rho] True (world s) = (Inr (f0, dJ_du), w1)
                \<and> (fst (plot_design L (cur_iter s) w1) = Inl e
                   \<or> (\<exists>u w2. plot_design L (cur_iter s) w1 = (Inr u, w2)
                       \<and> (g \<noteq> [] \<and> rbind (tensor_jacobian_product L (mapping L P) 0 v eta_i
                                             (real_of_int b) (sum_axis1 dJ_du))
                                          (slice_assign g) = Inl e
                          \<or> (g = [] \<or> (\<exists>g'. rbind (tensor_jacobian_product L (mapping L P) 0 v eta_i
                                             (real_of_int b) (sum_axis1 dJ_du))
                                          (slice_assign g) = Inr g'))
                            \<and> np_max (map Re f0) = Inl e))))))"
  by (auto simp: f_def Let_def split: sum.splits prod.splits if_splits)

text \<open>
  C8. \<open>mapping\<close>, \<open>J\<close> and \<open>f\<close> handle no error: each raises an exception \<open>e\<close> exactly when
  one of its library calls, reached with all earlier ones having returned, raises \<open>e\<close>.
  So an exception of a wrapped call propagates unchanged, nothing is caught or retried,
  and on inputs that the libraries accept none of the three raises.
\<close>

theorem library_errors_propagate:
  "(mapping L P v eta beta = Inl e \<longleftrightarrow>
     conic_filter L v (filter_radius L P) (design_region_width P) (design_region_height P)
        (design_region_resolution P) = Inl e
     \<or> (\<exists>filtered. conic_filter L v (filter_radius L P) (design_region_width P)
           (design_region_height P) (design_region_resolution P) = Inr filtered
         \<and> tanh_projection L filtered beta eta = Inl e))
   \<and> (J source_coef top_coef bottom_coef = Inl e \<longleftrightarrow>
     bcast1 (/) top_coef source_coef = Inl e
     \<or> (\<exists>t. bcast1 (/) top_coef source_coef = Inr t
         \<and> (bcast1 (/) bottom_coef source_coef = Inl e
            \<or> (\<exists>b. bcast1 (/) bottom_coef source_coef = Inr b
                \<and> bcast1 (+) (map (\<lambda>z. (cmod z)\<^sup>2) t) (map (\<lambda>z. (cmod z)\<^sup>2) b) = Inl e))))
   \<and> (fst (f L P v g b s) = Inl e \<longleftrightarrow>
     mapping L P v eta_i (real_of_int b) = Inl e
     \<or> (\<exists>rho. mapping L P v eta_i (real_of_int b) = Inr rho
         \<and> (fst (opt_call L [rho] True (world s)) = Inl e
            \<or> (\<exists>f0 dJ_du w1. opt_call L [rho] True (world s) = (Inr (f0, dJ_du), w1)
                \<and> (fst (plot_design L (cur_iter s) w1) = Inl e
                   \<or> (\<exists>u w2. plot_design L (cur_iter s) w1 = (Inr u, w2)
                       \<and> (g \<noteq> [] \<and> rbind (tensor_jacobian_product L (mapping L P) 0 v eta_i
                                             (real_of_int b) (sum_axis1 dJ_du))
                                          (slice_assign g) = Inl e
                          \<or> (g = [] \<or> (\<exists>g'. rbind (tensor_jacobian_product L (mapping L P) 0 v eta_i
                                             (real_of_int b) (sum_axis1 dJ_du))
                                          (slice_assign g) = Inr g'))
                            \<and> np_max (map Re f0) = Inl e)))))))"
  using mapping_error_iff[of L P v eta beta e] J_error_iff[of source_coef top_coef bottom_coef e]
    f_error_iff[of L P v g b s e]
  by (intro conjI)

lemma failing_mapping: "mapping failing_library P v eta beta = Inr v"
  by (simp add: mapping_def failing_library_def sample_library_def flatten_def rbind_def)

theorem library_errors_propagate_witness:
  "mapping failing_library notebook_params [1 / 2] eta_i 4 = Inr [1 / 2]
   \<and> fst (opt_call failing_library [[1 / 2]] True ()) = Inl (LibraryError ''meep'')
   \<and> fst (f failing_library notebook_params [1 / 2] [] 4 (start_state [1 / 2] ())) = Inl (LibraryError ''meep'')"
proof -
  have m: "mapping failing_library notebook_params [1 / 2] eta_i (real_of_int 4) = Inr [1 / 2]"
    by (rule failing_mapping)
  have o: "fst (opt_call failing_library [[1 / 2]] True (world (start_state [1 / 2] ()))) = Inl (LibraryError ''meep'')"
    by (simp add: failing_library_def)
  note t = library_errors_propagate[of failing_library notebook_params "[1 / 2]" eta_i 4 "LibraryError ''meep''"
      "[]" "[]" "[]" "[]" 4 "start_state [1 / 2] ()"]
  have "fst (f failing_library notebook_params [1 / 2] [] 4 (start_state [1 / 2] ())) = Inl (LibraryError ''meep'')"
    using t m o by blast
  with m o show ?thesis by simp
qed

section \<open>The continuation loop: schedule, bounds and final sharpness\<close>

lemma printed_append [simp]:
  "printed_betas (xs @ ys) = printed_betas xs @ printed_betas ys"
  "printed_iterations (xs @ ys) = printed_iterations xs @ printed_iterations ys"
  by (simp_all add: printed_betas_def printed_iterations_def)

lemma printed_single [simp]:
  "printed_betas [Current_beta b] = [b]" "printed_betas [Current_iteration i] = []"
  "printed_iterations [Current_beta b] = []" "printed_iterations [Current_iteration i] = [i]"
  "printed_betas [] = []" "printed_iterations [] = []"
  by (simp_all add: printed_betas_def printed_iterations_def)

lemma objective_apply: "objective L P a g s = f L P a g (cur_beta s) s"
  by (simp add: objective_def)

lemma objective_frame:
  assumes "objective L P v g s = (r, s')"
  shows "cur_beta s' = cur_beta s" "x_vec s' = x_vec s"
    "printed_betas (stdout s') = printed_betas (stdout s)"
    "printed_iterations (stdout s') = printed_iterations (stdout s) @ [cur_iter s + 1]"
  using assms f_frame[of L P v g "cur_beta s" s r s'] by (simp_all add: objective_def)

lemma run_solver_frame:
  "run_solver (objective L P) t s = (r, s') \<Longrightarrow>
     cur_beta s' = cur_beta s \<and> x_vec s' = x_vec s \<and>
     printed_betas (stdout s') = printed_betas (stdout s)"
proof (induction t arbitrary: s)
  case (Finish xopt)
  then show ?case by simp
next
  case (Fail e)
  then show ?case by simp
next
  case (Evaluate v g k)
  obtain r1 s1 where o: "objective L P v g s = (r1, s1)" by (cases "objective L P v g s")
  note fr = objective_frame[OF o]
  show ?case
  proof (cases r1)
    case (Inl e)
    with Evaluate.prems o fr show ?thesis by auto
  next
    case (Inr p)
    obtain y g' where p: "p = (y, g')" by (cases p)
    have "run_solver (objective L P) (k y g') s1 = (r, s')"
      using Evaluate.prems o Inr p by simp
    from Evaluate.IH[OF rangeI rangeI this] fr show ?thesis by simp
  qed
qed

lemma run_solver_fixed_beta_aux:
  "run_solver (\<lambda>a g s. f L P a g (cur_beta s) s) t s
   = run_solver (\<lambda>a g. f L P a g (cur_beta s)) t s"
proof (induction t arbitrary: s)
  case (Finish xopt)
  then show ?case by simp
next
  case (Fail e)
  then show ?case by simp
next
  case (Evaluate v g k)
  obtain r1 s1 where o: "f L P v g (cur_beta s) s = (r1, s1)" by (cases "f L P v g (cur_beta s) s")
  have b: "cur_beta s1 = cur_beta s" using f_frame(2)[OF o] .
  show ?case
  proof (cases r1)
    case (Inl e)
    with o show ?thesis by simp
  next
    case (Inr p)
    obtain y g' where p: "p = (y, g')" by (cases p)
    have "run_solver (\<lambda>a g s. f L P a g (cur_beta s) s) (k y g') s1
          = run_solver (\<lambda>a g. f L P a g (cur_beta s1)) (k y g') s1"
      by (rule Evaluate.IH[OF rangeI rangeI])
    with o Inr p b show ?thesis by simp
  qed
qed

lemma run_solver_fixed_beta:
  "run_solver (objective L P) t s = run_solver (\<lambda>a g. f L P a g (cur_beta s)) t s"
proof -
  have "objective L P = (\<lambda>a g s. f L P a g (cur_beta s) s)"
    by (intro ext) (rule objective_apply)
  then show ?thesis
    by (simp only: run_solver_fixed_beta_aux)
qed

lemma run_solver_evals:
  "evals_bounded t m \<Longrightarrow> run_solver (objective L P) t s = (r, s') \<Longrightarrow>
     length (printed_iterations (stdout s')) \<le> length (printed_iterations (stdout s)) + m"
proof (induction t arbitrary: s m)
  case (Finish xopt)
  then show ?case by simp
next
  case (Fail e)
  then show ?case by simp
next
  case (Evaluate v g k)
  obtain r1 s1 where o: "objective L P v g s = (r1, s1)" by (cases "objective L P v g s")
  note fr = objective_frame[OF o]
  from Evaluate.prems(1) have m: "0 < m" and kb: "\<And>y g'. evals_bounded (k y g') (m - 1)"
    by simp_all
  show ?case
  proof (cases r1)
    case (Inl e)
    with Evaluate.prems(2) o fr m show ?thesis by auto
  next
    case (Inr p)
    obtain y g' where p: "p = (y, g')" by (cases p)
    have "run_solver (objective L P) (k y g') s1 = (r, s')"
      using Evaluate.prems(2) o Inr p by simp
    from Evaluate.IH[OF rangeI rangeI kb this] fr m show ?thesis by simp
  qed
qed

lemma round_frame:
  assumes "continuation_round L P lb ub s = (r, s')"
  shows "printed_betas (stdout s') = printed_betas (stdout s) @ [cur_beta s]"
    and "r = Inr () \<Longrightarrow> cur_beta s' = cur_beta s * 2"
proof -
  let ?s1 = "s\<lparr>stdout := stdout s @ [Current_beta (cur_beta s)]\<rparr>"
  let ?t = "nlopt_optimize L (solver P lb ub) (x_vec ?s1)"
  obtain r1 s1 where rs: "run_solver (objective L P) ?t ?s1 = (r1, s1)"
    by (cases "run_solver (objective L P) ?t ?s1")
  from run_solver_frame[OF rs]
  have fr: "cur_beta s1 = cur_beta s" "printed_betas (stdout s1) = printed_betas (stdout s) @ [cur_beta s]"
    by simp_all
  from assms rs fr show "printed_betas (stdout s') = printed_betas (stdout s) @ [cur_beta s]"
    by (auto simp: continuation_round_def Let_def split: sum.splits)
  from assms rs fr show "r = Inr () \<Longrightarrow> cur_beta s' = cur_beta s * 2"
    by (auto simp: continuation_round_def Let_def beta_scale_def split: sum.splits)
qed

lemma round_evals:
  assumes "\<And>x0. evals_bounded (nlopt_optimize L (solver P lb ub) x0) (nat (sv_maxeval (solver P lb ub)))"
    and "continuation_round L P lb ub s = (r, s')"
  shows "length (printed_iterations (stdout s')) \<le> length (printed_iterations (stdout s)) + 12"
proof -
  let ?s1 = "s\<lparr>stdout := stdout s @ [Current_beta (cur_beta s)]\<rparr>"
  let ?c = "solver P lb ub"
  obtain r1 s1 where rs: "run_solver (objective L P) (nlopt_optimize L ?c (x_vec ?s1)) ?s1 = (r1, s1)"
    by (cases "run_solver (objective L P) (nlopt_optimize L ?c (x_vec ?s1)) ?s1")
  have "evals_bounded (nlopt_optimize L ?c (x_vec ?s1)) 12"
    using assms(1)[of "x_vec ?s1"] by (simp add: update_factor_def solver_def)
  from run_solver_evals[OF this rs]
  have "length (printed_iterations (stdout s1)) \<le> length (printed_iterations (stdout s)) + 12"
    by simp
  with assms(2) rs show ?thesis
    by (auto simp: continuation_round_def Let_def split: sum.splits)
qed

lemma for_range_append:
  "for_range body (xs @ ys) s =
     (case for_range body xs s of (Inl e, s') \<Rightarrow> (Inl e, s') | (Inr u, s') \<Rightarrow> for_range body ys s')"
  by (induction xs arbitrary: s) (auto split: prod.splits sum.splits)

lemma rounds_betas:
  "for_range (continuation_round L P lb ub) xs s = (r, s') \<Longrightarrow>
     \<exists>m\<le>length xs. printed_betas (stdout s') = printed_betas (stdout s) @ map (\<lambda>i. cur_beta s * 2 ^ i) [0..<m]
        \<and> (r = Inr () \<longrightarrow> m = length xs \<and> cur_beta s' = cur_beta s * 2 ^ length xs)"
proof (induction xs arbitrary: s)
  case Nil
  then show ?case by auto
next
  case (Cons a xs)
  obtain r1 s1 where rd: "continuation_round L P lb ub s = (r1, s1)"
    by (cases "continuation_round L P lb ub s")
  note fr = round_frame[OF rd]
  show ?case
  proof (cases r1)
    case (Inl e)
    with Cons.prems rd have "s' = s1" by simp
    with fr(1) have "printed_betas (stdout s') = printed_betas (stdout s) @ map (\<lambda>i. cur_beta s * 2 ^ i) [0..<1]"
      by simp
    moreover have "r \<noteq> Inr ()" using Cons.prems rd Inl by auto
    ultimately show ?thesis by (intro exI[of _ 1]) simp
  next
    case (Inr u)
    then have b: "cur_beta s1 = cur_beta s * 2" using fr(2) by simp
    have "for_range (continuation_round L P lb ub) xs s1 = (r, s')"
      using Cons.prems rd Inr by simp
    from Cons.IH[OF this] obtain m where m: "m \<le> length xs"
      "printed_betas (stdout s') = printed_betas (stdout s1) @ map (\<lambda>i. cur_beta s1 * 2 ^ i) [0..<m]"
      "r = Inr () \<longrightarrow> m = length xs \<and> cur_beta s' = cur_beta s1 * 2 ^ length xs"
      by blast
    have sh: "map (\<lambda>i. cur_beta s * 2 ^ i) [0..<Suc m]
              = cur_beta s # map (\<lambda>i. cur_beta s1 * 2 ^ i) [0..<m]"
      by (simp add: upt_conv_Cons map_Suc_upt[symmetric] b del: upt_Suc)
    show ?thesis
      using m fr(1) b by (intro exI[of _ "Suc m"]) (simp add: sh del: upt_Suc)
  qed
qed

lemma rounds_evals:
  assumes "\<And>x0. evals_bounded (nlopt_optimize L (solver P lb ub) x0) (nat (sv_maxeval (solver P lb ub)))"
  shows "for_range (continuation_round L P lb ub) xs s = (r, s') \<Longrightarrow>
     length (printed_iterations (stdout s')) \<le> length (printed_iterations (stdout s)) + 12 * length xs"
proof (induction xs arbitrary: s)
  case Nil
  then show ?case by auto
next
  case (Cons a xs)
  obtain r1 s1 where rd: "continuation_round L P lb ub s = (r1, s1)"
    by (cases "continuation_round L P lb ub s")
  note ev = round_evals[OF assms rd]
  show ?case
  proof (cases r1)
    case (Inl e)
    with Cons.prems rd ev show ?thesis by auto
  next
    case (Inr u)
    have "for_range (continuation_round L P lb ub) xs s1 = (r, s')"
      using Cons.prems rd Inr by simp
    from Cons.IH[OF this] ev show ?thesis by simp
  qed
qed

lemma round_fixed_beta:
  "continuation_round L P lb ub s =
     (case run_solver (\<lambda>a g. f L P a g (cur_beta s))
             (nlopt_optimize L (solver P lb ub) (x_vec s))
             (s\<lparr>stdout := stdout s @ [Current_beta (cur_beta s)]\<rparr>) of
        (Inl e, s') \<Rightarrow> (Inl e, s')
      | (Inr xopt, s') \<Rightarrow>
          (case slice_assign (x_vec s') xopt of
             Inl e \<Rightarrow> (Inl e, s')
           | Inr x' \<Rightarrow> (Inr (), s'\<lparr>x_vec := x', cur_beta := cur_beta s * beta_scale\<rparr>)))"
proof -
  let ?s1 = "s\<lparr>stdout := stdout s @ [Current_beta (cur_beta s)]\<rparr>"
  let ?t = "nlopt_optimize L (solver P lb ub) (x_vec s)"
  have eq: "run_solver (objective L P) ?t ?s1 = run_solver (\<lambda>a g. f L P a g (cur_beta s)) ?t ?s1"
    using run_solver_fixed_beta[of L P ?t ?s1] by simp
  obtain r1 s1 where rs: "run_solver (objective L P) ?t ?s1 = (r1, s1)"
    by (cases "run_solver (objective L P) ?t ?s1")
  have b: "cur_beta s1 = cur_beta s"
    using run_solver_frame[OF rs] by simp
  have "continuation_round L P lb ub s =
     (case run_solver (objective L P) ?t ?s1 of
        (Inl e, s') \<Rightarrow> (Inl e, s')
      | (Inr xopt, s') \<Rightarrow>
          (case slice_assign (x_vec s') xopt of
             Inl e \<Rightarrow> (Inl e, s')
           | Inr x' \<Rightarrow> (Inr (), s'\<lparr>x_vec := x', cur_beta := cur_beta s' * beta_scale\<rparr>)))"
    by (simp add: continuation_round_def Let_def)
  also have "\<dots> =
     (case run_solver (objective L P) ?t ?s1 of
        (Inl e, s') \<Rightarrow> (Inl e, s')
      | (Inr xopt, s') \<Rightarrow>
          (case slice_assign (x_vec s') xopt of
             Inl e \<Rightarrow> (Inl e, s')
           | Inr x' \<Rightarrow> (Inr (), s'\<lparr>x_vec := x', cur_beta := cur_beta s * beta_scale\<rparr>)))"
    unfolding rs using b by (simp split: sum.splits)
  finally show ?thesis unfolding eq .
qed

lemma for_range_reaches:
  assumes "for_range body (xs @ ys) s = (Inr (), s')"
  shows "\<exists>sk. for_range body xs s = (Inr (), sk) \<and> for_range body ys sk = (Inr (), s')"
proof -
  obtain r1 s1 where p: "for_range body xs s = (r1, s1)" by (cases "for_range body xs s")
  show ?thesis
  proof (cases r1)
    case (Inl e)
    with assms p show ?thesis by (simp add: for_range_append)
  next
    case (Inr u)
    with assms p show ?thesis by (simp add: for_range_append)
  qed
qed

lemma sample_round:
  "continuation_round sample_library P lb ub s =
     (Inr (),
      s\<lparr>stdout := stdout s @ [Current_beta (cur_beta s), Current_iteration (cur_iter s + 1)],
        evaluation_history := evaluation_history s @ [1],
        cur_iter := cur_iter s + 1,
        cur_beta := cur_beta s * 2\<rparr>)"
proof -
  have t: "nlopt_optimize sample_library (solver P lb ub) x0 = Evaluate x0 x0 (\<lambda>r g. Finish x0)" for x0
    by (simp add: sample_library_def solver_def update_factor_def)
  show ?thesis
    by (simp add: continuation_round_def Let_def t objective_def sample_f slice_assign_def beta_scale_def)
qed

lemma sample_contract:
  "\<forall>v. evals_bounded (nlopt_optimize sample_library c v) (nat (sv_maxeval c))"
  by (simp add: sample_library_def)

lemma sample_loop:
  "continuation_loop sample_library P lb ub (start_state x0 ()) =
     (Inr (), \<lparr>evaluation_history = [1, 1, 1, 1, 1, 1], cur_iter = 6, x_vec = x0, cur_beta = 256,
                 stdout = [Current_beta 4, Current_iteration 1, Current_beta 8, Current_iteration 2,
                           Current_beta 16, Current_iteration 3, Current_beta 32, Current_iteration 4,
                           Current_beta 64, Current_iteration 5, Current_beta 128, Current_iteration 6],
                 world = ()\<rparr>)"
proof -
  have six: "[0..<6] = [0, 1, 2, 3, 4, 5]" by (simp add: upt_rec)
  show ?thesis
    by (simp add: continuation_loop_def num_betas_def six sample_round start_state_def)
qed

lemma probe_mapping: "mapping probe_library P [c] eta beta = Inr [beta]"
  by (simp add: mapping_def probe_library_def sample_library_def flatten_def rbind_def amap_def)

lemma probe_f:
  "f probe_library P [c] [c] b s =
     (Inr ([real_of_int b], [c]),
      s\<lparr>stdout := stdout s @ [Current_iteration (cur_iter s + 1)],
        evaluation_history := evaluation_history s @ [real_of_int b],
        cur_iter := cur_iter s + 1\<rparr>)"
proof -
  have lib: "opt_call probe_library = (\<lambda>rhos need_gradient w.
                       (Inr (map complex_of_real (concat rhos), \<lparr>nrows = 0, ncols = 0, adata = []\<rparr>), w))"
    "plot_design probe_library = (\<lambda>i w. (Inr (), w))"
    "tensor_jacobian_product probe_library = (\<lambda>m i v eta beta u. Inr v)"
    by (simp_all add: probe_library_def sample_library_def)
  show ?thesis
    by (simp add: f_def Let_def probe_mapping lib np_max_def slice_assign_def rbind_def)
qed

lemma probe_round:
  assumes "length (x_vec s) = 1"
  shows "continuation_round probe_library P lb ub s =
     (Inr (),
      s\<lparr>stdout := stdout s @ [Current_beta (cur_beta s), Current_iteration (cur_iter s + 1)],
        evaluation_history := evaluation_history s @ [real_of_int (cur_beta s)],
        cur_iter := cur_iter s + 1,
        cur_beta := cur_beta s * 2\<rparr>)"
proof -
  obtain c where c: "x_vec s = [c]"
    using assms by (cases "x_vec s") auto
  have t: "nlopt_optimize probe_library (solver P lb ub) x0 = Evaluate x0 x0 (\<lambda>r g. Finish x0)" for x0
    by (simp add: probe_library_def sample_library_def solver_def update_factor_def)
  show ?thesis
    using c
    by (simp add: continuation_round_def Let_def t objective_def probe_f slice_assign_def beta_scale_def)
qed

lemma probe_two_rounds:
  "for_range (continuation_round probe_library P lb ub) [0..<2] (start_state [1 / 2] ())
       = (Inr (), \<lparr>evaluation_history = [4, 8], cur_iter = 2, x_vec = [1 / 2], cur_beta = 16,
                   stdout = [Current_beta 4, Current_iteration 1, Current_beta 8, Current_iteration 2],
                   world = ()\<rparr>)"
proof -
  have two: "[0..<2] = [0, 1]" by (simp add: upt_rec)
  show ?thesis
    by (simp add: two probe_round start_state_def)
qed

lemma probe_loop:
  "continuation_loop probe_library P lb ub (start_state [1 / 2] ()) =
     (Inr (), \<lparr>evaluation_history = [4, 8, 16, 32, 64, 128], cur_iter = 6, x_vec = [1 / 2], cur_beta = 256,
                 stdout = [Current_beta 4, Current_iteration 1, Current_beta 8, Current_iteration 2,
                           Current_beta 16, Current_iteration 3, Current_beta 32, Current_iteration 4,
                           Current_beta 64, Current_iteration 5, Current_beta 128, Current_iteration 6],
                 world = ()\<rparr>)"
proof -
  have six: "[0..<6] = [0, 1, 2, 3, 4, 5]" by (simp add: upt_rec)
  show ?thesis
    by (simp add: continuation_loop_def num_betas_def six probe_round start_state_def)
qed

text \<open>
  C1. The sharpness starts at 4 and is doubled after every round. If round \<open>k\<close> of the loop
  (\<open>k = 0..5\<close>) is reached, in state \<open>s\<close>, then the loop goes on from \<open>s\<close> with the rounds
  \<open>k..5\<close>, \<open>cur_beta\<close> is \<open>4 * 2^k\<close> there, and the rounds before it have printed
  \<open>4 * 2^j\<close> for \<open>j < k\<close>. Round \<open>k\<close> itself is the round that prints \<open>4 * 2^k\<close>, runs its
  optimizer against \<open>f\<close> called with the sharpness \<open>4 * 2^k\<close> at every evaluation, and
  leaves \<open>cur_beta = 4 * 2^(k+1)\<close>: the objective, which reads \<open>cur_beta\<close> when it is
  called, passes \<open>4 * 2^k\<close> to \<open>f\<close> as long as the sharpness has this value, and \<open>f\<close> does
  not change it. The sharpness of every earlier round \<open>j < k\<close> is strictly less.
\<close>

theorem sharpness_schedule:
  assumes "k < num_betas"
    and "for_range (continuation_round L P lb ub) [0..<k] (start_state x0 w) = (Inr (), s)"
  shows "continuation_loop L P lb ub (start_state x0 w)
           = for_range (continuation_round L P lb ub) [k..<num_betas] s
         \<and> cur_beta s = 4 * 2 ^ k
         \<and> printed_betas (stdout s) = map (\<lambda>j. 4 * 2 ^ j) [0..<k]
         \<and> (\<forall>t s1. cur_beta s1 = cur_beta s \<longrightarrow>
               run_solver (objective L P) t s1 = run_solver (\<lambda>a g. f L P a g (4 * 2 ^ k)) t s1)
         \<and> (\<forall>j<k. (4::int) * 2 ^ j < 4 * 2 ^ k)
         \<and> continuation_round L P lb ub s =
             (case run_solver (\<lambda>a g. f L P a g (4 * 2 ^ k))
                     (nlopt_optimize L (solver P lb ub) (x_vec s))
                     (s\<lparr>stdout := stdout s @ [Current_beta (4 * 2 ^ k)]\<rparr>) of
                (Inl e, s') \<Rightarrow> (Inl e, s')
              | (Inr xopt, s') \<Rightarrow>
                  (case slice_assign (x_vec s') xopt of
                     Inl e \<Rightarrow> (Inl e, s')
                   | Inr x' \<Rightarrow> (Inr (), s'\<lparr>x_vec := x', cur_beta := 4 * 2 ^ (k + 1)\<rparr>)))"
proof -
  have split: "[0..<num_betas] = [0..<k] @ [k..<num_betas]"
    using assms(1) by (metis le_add_diff_inverse less_imp_le_nat upt_add_eq_append zero_le)
  have loop: "continuation_loop L P lb ub (start_state x0 w)
           = for_range (continuation_round L P lb ub) [k..<num_betas] s"
    unfolding continuation_loop_def by (subst split) (simp add: for_range_append assms(2))
  from rounds_betas[OF assms(2)]
  have beta: "cur_beta s = 4 * 2 ^ k"
    and pr: "printed_betas (stdout s) = map (\<lambda>j. 4 * 2 ^ j) [0..<k]"
    by auto
  have obj: "run_solver (objective L P) t s1 = run_solver (\<lambda>a g. f L P a g (4 * 2 ^ k)) t s1"
    if "cur_beta s1 = cur_beta s" for t s1
    using run_solver_fixed_beta[of L P t s1] that beta by simp
  have mono: "(4::int) * 2 ^ j < 4 * 2 ^ k" if "j < k" for j
    using that by simp
  have nxt: "cur_beta s * beta_scale = 4 * 2 ^ (k + 1)"
    by (simp add: beta beta_scale_def)
  have rnd: "continuation_round L P lb ub s =
             (case run_solver (\<lambda>a g. f L P a g (4 * 2 ^ k))
                     (nlopt_optimize L (solver P lb ub) (x_vec s))
                     (s\<lparr>stdout := stdout s @ [Current_beta (4 * 2 ^ k)]\<rparr>) of
                (Inl e, s') \<Rightarrow> (Inl e, s')
              | (Inr xopt, s') \<Rightarrow>
                  (case slice_assign (x_vec s') xopt of
                     Inl e \<Rightarrow> (Inl e, s')
                   | Inr x' \<Rightarrow> (Inr (), s'\<lparr>x_vec := x', cur_beta := 4 * 2 ^ (k + 1)\<rparr>)))"
    using round_fixed_beta[of L P lb ub s] unfolding nxt unfolding beta .
  from loop beta pr obj mono rnd show ?thesis by blast
qed

theorem sharpness_schedule_witness:
  "(2::nat) < num_betas
   \<and> for_range (continuation_round probe_library notebook_params [0] [1]) [0..<2] (start_state [1 / 2] ())
       = (Inr (), \<lparr>evaluation_history = [4, 8], cur_iter = 2, x_vec = [1 / 2], cur_beta = 16,
                   stdout = [Current_beta 4, Current_iteration 1, Current_beta 8, Current_iteration 2],
                   world = ()\<rparr>)
   \<and> continuation_loop probe_library notebook_params [0] [1] (start_state [1 / 2] ())
       = for_range (continuation_round probe_library notebook_params [0] [1]) [2..<num_betas]
           \<lparr>evaluation_history = [4, 8], cur_iter = 2, x_vec = [1 / 2], cur_beta = 16,
             stdout = [Current_beta 4, Current_iteration 1, Current_beta 8, Current_iteration 2],
             world = ()\<rparr>
   \<and> continuation_round probe_library notebook_params [0] [1]
         \<lparr>evaluation_history = [4, 8], cur_iter = 2, x_vec = [1 / 2], cur_beta = 16,
           stdout = [Current_beta 4, Current_iteration 1, Current_beta 8, Current_iteration 2],
           world = ()\<rparr>
       = (case run_solver (\<lambda>a g. f probe_library notebook_params a g (4 * 2 ^ 2))
                 (nlopt_optimize probe_library (solver notebook_params [0] [1]) [1 / 2])
                 \<lparr>evaluation_history = [4, 8], cur_iter = 2, x_vec = [1 / 2], cur_beta = 16,
                   stdout = [Current_beta 4, Current_iteration 1, Current_beta 8, Current_iteration 2,
                             Current_beta (4 * 2 ^ 2)],
                   world = ()\<rparr> of
            (Inl e, s') \<Rightarrow> (Inl e, s')
          | (Inr xopt, s') \<Rightarrow>
              (case slice_assign (x_vec s') xopt of
                 Inl e \<Rightarrow> (Inl e, s')
               | Inr x' \<Rightarrow> (Inr (), s'\<lparr>x_vec := x', cur_beta := 4 * 2 ^ (2 + 1)\<rparr>)))
   \<and> continuation_round probe_library notebook_params [0] [1]
         \<lparr>evaluation_history = [4, 8], cur_iter = 2, x_vec = [1 / 2], cur_beta = 16,
           stdout = [Current_beta 4, Current_iteration 1, Current_beta 8, Current_iteration 2],
           world = ()\<rparr>
       = (Inr (), \<lparr>evaluation_history = [4, 8, 16], cur_iter = 3, x_vec = [1 / 2], cur_beta = 32,
                   stdout = [Current_beta 4, Current_iteration 1, Current_beta 8, Current_iteration 2,
                             Current_beta 16, Current_iteration 3],
                   world = ()\<rparr>)
   \<and> (4::int) * 2 ^ 0 < 4 * 2 ^ 2 \<and> (4::int) * 2 ^ 1 < 4 * 2 ^ 2"
proof -
  have k: "(2::nat) < num_betas" by (simp add: num_betas_def)
  let ?S = "\<lparr>evaluation_history = [4, 8], cur_iter = 2, x_vec = [1 / 2], cur_beta = 16,
             stdout = [Current_beta 4, Current_iteration 1, Current_beta 8, Current_iteration 2],
             world = ()\<rparr>"
  have run: "for_range (continuation_round probe_library notebook_params [0] [1]) [0..<2] (start_state [1 / 2] ())
       = (Inr (), ?S)"
    by (rule probe_two_rounds)
  note t = sharpness_schedule[OF k run]
  have loop: "continuation_loop probe_library notebook_params [0] [1] (start_state [1 / 2] ())
       = for_range (continuation_round probe_library notebook_params [0] [1]) [2..<num_betas] ?S"
    using t by blast
  have rnd: "continuation_round probe_library notebook_params [0] [1] ?S
       = (case run_solver (\<lambda>a g. f probe_library notebook_params a g (4 * 2 ^ 2))
                 (nlopt_optimize probe_library (solver notebook_params [0] [1]) (x_vec ?S))
                 (?S\<lparr>stdout := stdout ?S @ [Current_beta (4 * 2 ^ 2)]\<rparr>) of
            (Inl e, s') \<Rightarrow> (Inl e, s')
          | (Inr xopt, s') \<Rightarrow>
              (case slice_assign (x_vec s') xopt of
                 Inl e \<Rightarrow> (Inl e, s')
               | Inr x' \<Rightarrow> (Inr (), s'\<lparr>x_vec := x', cur_beta := 4 * 2 ^ (2 + 1)\<rparr>)))"
    using t by blast
  have rnd': "continuation_round probe_library notebook_params [0] [1] ?S
       = (case run_solver (\<lambda>a g. f probe_library notebook_params a g (4 * 2 ^ 2))
                 (nlopt_optimize probe_library (solver notebook_params [0] [1]) [1 / 2])
                 \<lparr>evaluation_history = [4, 8], cur_iter = 2, x_vec = [1 / 2], cur_beta = 16,
                   stdout = [Current_beta 4, Current_iteration 1, Current_beta 8, Current_iteration 2,
                             Current_beta (4 * 2 ^ 2)],
                   world = ()\<rparr> of
            (Inl e, s') \<Rightarrow> (Inl e, s')
          | (Inr xopt, s') \<Rightarrow>
              (case slice_assign (x_vec s') xopt of
                 Inl e \<Rightarrow> (Inl e, s')
               | Inr x' \<Rightarrow> (Inr (), s'\<lparr>x_vec := x', cur_beta := 4 * 2 ^ (2 + 1)\<rparr>)))"
    using rnd by (simp only: notebook.simps append.simps)
  have val: "continuation_round probe_library notebook_params [0] [1] ?S
       = (Inr (), \<lparr>evaluation_history = [4, 8, 16], cur_iter = 3, x_vec = [1 / 2], cur_beta = 32,
                   stdout = [Current_beta 4, Current_iteration 1, Current_beta 8, Current_iteration 2,
                             Current_beta 16, Current_iteration 3],
                   world = ()\<rparr>)"
    by (simp add: probe_round)
  have m: "(4::int) * 2 ^ 0 < 4 * 2 ^ 2" "(4::int) * 2 ^ 1 < 4 * 2 ^ 2"
    using t by simp_all
  show ?thesis
    using k run loop rnd' val m by (intro conjI)
qed

text \<open>
  C6. The loop has a fixed, bounded schedule. Its optimizer is built anew every round with
  \<open>maxeval = update_factor = 12\<close>. When the optimizer honours \<open>maxeval\<close>, a round starts
  at most 12 calls of \<open>f\<close>, and the loop, which always ends, has started at most 6 rounds
  and at most 72 calls of \<open>f\<close>; a loop that ends without an exception has run exactly
  6 rounds. A call of \<open>f\<close> is counted by the line it prints first, a round by the line
  with the sharpness.
\<close>

theorem continuation_schedule_bounded:
  assumes "\<forall>v. evals_bounded (nlopt_optimize L (solver P lb ub) v) (nat (sv_maxeval (solver P lb ub)))"
    and "continuation_loop L P lb ub (start_state x0 w) = (r, s')"
  shows "sv_maxeval (solver P lb ub) = 12
         \<and> length (printed_betas (stdout s')) \<le> 6
         \<and> (r = Inr () \<longrightarrow> length (printed_betas (stdout s')) = 6)
         \<and> length (printed_iterations (stdout s')) \<le> 72
         \<and> (\<forall>s r1 s1. continuation_round L P lb ub s = (r1, s1) \<longrightarrow>
               length (printed_betas (stdout s1)) = length (printed_betas (stdout s)) + 1 \<and>
               length (printed_iterations (stdout s1)) \<le> length (printed_iterations (stdout s)) + 12)"
proof -
  have c: "\<And>v. evals_bounded (nlopt_optimize L (solver P lb ub) v) (nat (sv_maxeval (solver P lb ub)))"
    using assms(1) by blast
  have run: "for_range (continuation_round L P lb ub) [0..<num_betas] (start_state x0 w) = (r, s')"
    using assms(2) by (simp add: continuation_loop_def)
  from rounds_betas[OF run] obtain m where m: "m \<le> 6"
    "printed_betas (stdout s') = map (\<lambda>i. 4 * 2 ^ i) [0..<m]" "r = Inr () \<longrightarrow> m = 6"
    by (auto simp: num_betas_def)
  have betas: "length (printed_betas (stdout s')) \<le> 6"
    "r = Inr () \<longrightarrow> length (printed_betas (stdout s')) = 6"
    using m by simp_all
  have total: "length (printed_iterations (stdout s')) \<le> 72"
    using rounds_evals[OF c run] by (simp add: num_betas_def)
  have per_round: "length (printed_betas (stdout s1)) = length (printed_betas (stdout s)) + 1 \<and>
               length (printed_iterations (stdout s1)) \<le> length (printed_iterations (stdout s)) + 12"
    if "continuation_round L P lb ub s = (r1, s1)" for s r1 s1
    using round_frame(1)[OF that] round_evals[OF c that] by simp
  have mx: "sv_maxeval (solver P lb ub) = 12"
    by (simp add: solver_def update_factor_def)
  from mx betas total per_round show ?thesis by blast
qed

theorem continuation_schedule_bounded_witness:
  "evals_bounded (nlopt_optimize sample_library (solver notebook_params [0] [1]) [1 / 2])
      (nat (sv_maxeval (solver notebook_params [0] [1])))
   \<and> fst (continuation_loop sample_library notebook_params [0] [1] (start_state [1 / 2] ())) = Inr ()
   \<and> length (printed_betas (stdout (snd (continuation_loop sample_library notebook_params [0] [1] (start_state [1 / 2] ()))))) = 6
   \<and> length (printed_iterations (stdout (snd (continuation_loop sample_library notebook_params [0] [1] (start_state [1 / 2] ()))))) \<le> 72"
proof -
  note run = sample_loop[of notebook_params "[0]" "[1]" "[1 / 2]"]
  from continuation_schedule_bounded[OF sample_contract run] run
  show ?thesis using sample_contract[of "solver notebook_params [0] [1]"] by simp
qed

text \<open>
  C10. After a loop that has finished, \<open>cur_beta\<close> is \<open>4 * 2^6 = 256\<close>. Every round
  \<open>k = 0..5\<close> of that loop was reached, and ran its optimizer against \<open>f\<close> called with the
  sharpness \<open>4 * 2^k\<close>, which is at most 128 (the value of the last round) and less than
  256; the rounds printed 4, 8, 16, 32, 64 and 128. The final spectral evaluation applies
  \<open>mapping\<close> with sharpness 256, and so does the final design update that follows it.
\<close>

theorem final_sharpness:
  assumes "continuation_loop L P lb ub (start_state x0 w) = (Inr (), s)"
  shows "cur_beta s = 256
         \<and> printed_betas (stdout s) = [4, 8, 16, 32, 64, 128]
         \<and> (\<forall>b \<in> set (printed_betas (stdout s)). b \<le> 128 \<and> b < cur_beta s)
         \<and> spectral_response L P s =
             (case mapping L P (x_vec s) eta_i 256 of
                Inl e \<Rightarrow> (Inl e, s)
              | Inr rho \<Rightarrow> (case opt_call L [rho] False (world s) of (r, w') \<Rightarrow> (r, s\<lparr>world := w'\<rparr>)))
         \<and> (\<forall>r s2. spectral_response L P s = (r, s2) \<longrightarrow>
               final_design_update L P s2 =
                 (case mapping L P (x_vec s) eta_i 256 of
                    Inl e \<Rightarrow> (Inl e, s2)
                  | Inr rho \<Rightarrow> (case opt_update_design L [rho] (world s2) of (r, w') \<Rightarrow> (r, s2\<lparr>world := w'\<rparr>))))
         \<and> (\<forall>k<num_betas. \<exists>sk.
               for_range (continuation_round L P lb ub) [0..<k] (start_state x0 w) = (Inr (), sk)
               \<and> for_range (continuation_round L P lb ub) [k..<num_betas] sk = (Inr (), s)
               \<and> cur_beta sk = 4 * 2 ^ k
               \<and> (4::int) * 2 ^ k \<le> 128 \<and> (4::int) * 2 ^ k < cur_beta s
               \<and> continuation_round L P lb ub sk =
                   (case run_solver (\<lambda>a g. f L P a g (4 * 2 ^ k))
                           (nlopt_optimize L (solver P lb ub) (x_vec sk))
                           (sk\<lparr>stdout := stdout sk @ [Current_beta (4 * 2 ^ k)]\<rparr>) of
                      (Inl e, s') \<Rightarrow> (Inl e, s')
                    | (Inr xopt, s') \<Rightarrow>
                        (case slice_assign (x_vec s') xopt of
                           Inl e \<Rightarrow> (Inl e, s')
                         | Inr x' \<Rightarrow> (Inr (), s'\<lparr>x_vec := x', cur_beta := 4 * 2 ^ (k + 1)\<rparr>))))"
proof -
  have run: "for_range (continuation_round L P lb ub) [0..<num_betas] (start_state x0 w) = (Inr (), s)"
    using assms by (simp add: continuation_loop_def)
  from rounds_betas[OF run]
  have beta: "cur_beta s = 256"
    and pr: "printed_betas (stdout s) = map (\<lambda>i. 4 * 2 ^ i) [0..<6]"
    by (auto simp: num_betas_def)
  have six: "[0..<6] = [0, 1, 2, 3, 4, 5]"
    by (simp add: upt_rec)
  have pr': "printed_betas (stdout s) = [4, 8, 16, 32, 64, 128]"
    unfolding pr six by simp
  have below: "\<forall>b \<in> set (printed_betas (stdout s)). b \<le> 128 \<and> b < cur_beta s"
    unfolding pr' beta by simp
  have sp: "spectral_response L P s =
             (case mapping L P (x_vec s) eta_i 256 of
                Inl e \<Rightarrow> (Inl e, s)
              | Inr rho \<Rightarrow> (case opt_call L [rho] False (world s) of (r, w') \<Rightarrow> (r, s\<lparr>world := w'\<rparr>)))"
    by (simp add: spectral_response_def beta)
  have up: "final_design_update L P s2 =
                 (case mapping L P (x_vec s) eta_i 256 of
                    Inl e \<Rightarrow> (Inl e, s2)
                  | Inr rho \<Rightarrow> (case opt_update_design L [rho] (world s2) of (r, w') \<Rightarrow> (r, s2\<lparr>world := w'\<rparr>)))"
    if "spectral_response L P s = (r, s2)" for r s2
  proof -
    have "cur_beta s2 = cur_beta s \<and> x_vec s2 = x_vec s"
      using that by (auto simp: spectral_response_def split: sum.splits prod.splits)
    then show ?thesis by (simp add: final_design_update_def beta)
  qed
  have rounds: "\<exists>sk.
               for_range (continuation_round L P lb ub) [0..<k] (start_state x0 w) = (Inr (), sk)
               \<and> for_range (continuation_round L P lb ub) [k..<num_betas] sk = (Inr (), s)
               \<and> cur_beta sk = 4 * 2 ^ k
               \<and> (4::int) * 2 ^ k \<le> 128 \<and> (4::int) * 2 ^ k < cur_beta s
               \<and> continuation_round L P lb ub sk =
                   (case run_solver (\<lambda>a g. f L P a g (4 * 2 ^ k))
                           (nlopt_optimize L (solver P lb ub) (x_vec sk))
                           (sk\<lparr>stdout := stdout sk @ [Current_beta (4 * 2 ^ k)]\<rparr>) of
                      (Inl e, s') \<Rightarrow> (Inl e, s')
                    | (Inr xopt, s') \<Rightarrow>
                        (case slice_assign (x_vec s') xopt of
                           Inl e \<Rightarrow> (Inl e, s')
                         | Inr x' \<Rightarrow> (Inr (), s'\<lparr>x_vec := x', cur_beta := 4 * 2 ^ (k + 1)\<rparr>)))"
    if k: "k < num_betas" for k
  proof -
    have split: "[0..<num_betas] = [0..<k] @ [k..<num_betas]"
      using k by (metis le_add_diff_inverse less_imp_le_nat upt_add_eq_append zero_le)
    from for_range_reaches[OF run[unfolded split]] obtain sk where
      sk: "for_range (continuation_round L P lb ub) [0..<k] (start_state x0 w) = (Inr (), sk)"
        "for_range (continuation_round L P lb ub) [k..<num_betas] sk = (Inr (), s)"
      by blast
    from rounds_betas[OF sk(1)] have bk: "cur_beta sk = 4 * 2 ^ k" by auto
    have "k \<le> 5" using k by (simp add: num_betas_def)
    then have "(2::int) ^ k \<le> 2 ^ 5" by (intro power_increasing) simp_all
    then have le: "(4::int) * 2 ^ k \<le> 128" by simp
    then have lt: "(4::int) * 2 ^ k < cur_beta s" unfolding beta by simp
    have nxt: "cur_beta sk * beta_scale = 4 * 2 ^ (k + 1)"
      by (simp add: bk beta_scale_def)
    have rnd: "continuation_round L P lb ub sk =
                   (case run_solver (\<lambda>a g. f L P a g (4 * 2 ^ k))
                           (nlopt_optimize L (solver P lb ub) (x_vec sk))
                           (sk\<lparr>stdout := stdout sk @ [Current_beta (4 * 2 ^ k)]\<rparr>) of
                      (Inl e, s') \<Rightarrow> (Inl e, s')
                    | (Inr xopt, s') \<Rightarrow>
                        (case slice_assign (x_vec s') xopt of
                           Inl e \<Rightarrow> (Inl e, s')
                         | Inr x' \<Rightarrow> (Inr (), s'\<lparr>x_vec := x', cur_beta := 4 * 2 ^ (k + 1)\<rparr>)))"
      using round_fixed_beta[of L P lb ub sk] unfolding nxt unfolding bk .
    from sk bk le lt rnd show ?thesis by blast
  qed
  from beta pr' below sp up rounds show ?thesis by blast
qed

theorem final_sharpness_witness:
  "continuation_loop probe_library notebook_params [0] [1] (start_state [1 / 2] ())
     = (Inr (), \<lparr>evaluation_history = [4, 8, 16, 32, 64, 128], cur_iter = 6, x_vec = [1 / 2], cur_beta = 256,
                 stdout = [Current_beta 4, Current_iteration 1, Current_beta 8, Current_iteration 2,
                           Current_beta 16, Current_iteration 3, Current_beta 32, Current_iteration 4,
                           Current_beta 64, Current_iteration 5, Current_beta 128, Current_iteration 6],
                 world = ()\<rparr>)
   \<and> fst (spectral_response probe_library notebook_params
            \<lparr>evaluation_history = [4, 8, 16, 32, 64, 128], cur_iter = 6, x_vec = [1 / 2], cur_beta = 256,
              stdout = [Current_beta 4, Current_iteration 1, Current_beta 8, Current_iteration 2,
                        Current_beta 16, Current_iteration 3, Current_beta 32, Current_iteration 4,
                        Current_beta 64, Current_iteration 5, Current_beta 128, Current_iteration 6],
              world = ()\<rparr>)
       = Inr ([256], \<lparr>nrows = 0, ncols = 0, adata = []\<rparr>)
   \<and> (\<exists>sk. for_range (continuation_round probe_library notebook_params [0] [1]) [0..<5] (start_state [1 / 2] ())
               = (Inr (), sk)
            \<and> cur_beta sk = 128
            \<and> continuation_round probe_library notebook_params [0] [1] sk =
                   (case run_solver (\<lambda>a g. f probe_library notebook_params a g 128)
                           (nlopt_optimize probe_library (solver notebook_params [0] [1]) (x_vec sk))
                           (sk\<lparr>stdout := stdout sk @ [Current_beta 128]\<rparr>) of
                      (Inl e, s') \<Rightarrow> (Inl e, s')
                    | (Inr xopt, s') \<Rightarrow>
                        (case slice_assign (x_vec s') xopt of
                           Inl e \<Rightarrow> (Inl e, s')
                         | Inr x' \<Rightarrow> (Inr (), s'\<lparr>x_vec := x', cur_beta := 256\<rparr>))))"
proof -
  let ?SF = "\<lparr>evaluation_history = [4, 8, 16, 32, 64, 128], cur_iter = 6, x_vec = [1 / 2], cur_beta = 256,
                 stdout = [Current_beta 4, Current_iteration 1, Current_beta 8, Current_iteration 2,
                           Current_beta 16, Current_iteration 3, Current_beta 32, Current_iteration 4,
                           Current_beta 64, Current_iteration 5, Current_beta 128, Current_iteration 6],
                 world = ()\<rparr>"
  have run: "continuation_loop probe_library notebook_params [0] [1] (start_state [1 / 2] ()) = (Inr (), ?SF)"
    by (rule probe_loop)
  note t = final_sharpness[OF run]
  have sp: "spectral_response probe_library notebook_params ?SF =
             (case mapping probe_library notebook_params (x_vec ?SF) eta_i 256 of
                Inl e \<Rightarrow> (Inl e, ?SF)
              | Inr rho \<Rightarrow> (case opt_call probe_library [rho] False (world ?SF) of (r, w') \<Rightarrow> (r, ?SF\<lparr>world := w'\<rparr>)))"
    using t by blast
  have oc: "opt_call probe_library = (\<lambda>rhos need_gradient w.
                       (Inr (map complex_of_real (concat rhos), \<lparr>nrows = 0, ncols = 0, adata = []\<rparr>), w))"
    by (simp add: probe_library_def)
  have spv: "fst (spectral_response probe_library notebook_params ?SF)
       = Inr ([256], \<lparr>nrows = 0, ncols = 0, adata = []\<rparr>)"
    unfolding sp by (simp add: probe_mapping oc)
  have five: "(5::nat) < num_betas" by (simp add: num_betas_def)
  have "\<forall>k<num_betas. \<exists>sk.
               for_range (continuation_round probe_library notebook_params [0] [1]) [0..<k] (start_state [1 / 2] ()) = (Inr (), sk)
               \<and> for_range (continuation_round probe_library notebook_params [0] [1]) [k..<num_betas] sk = (Inr (), ?SF)
               \<and> cur_beta sk = 4 * 2 ^ k
               \<and> (4::int) * 2 ^ k \<le> 128 \<and> (4::int) * 2 ^ k < cur_beta ?SF
               \<and> continuation_round probe_library notebook_params [0] [1] sk =
                   (case run_solver (\<lambda>a g. f probe_library notebook_params a g (4 * 2 ^ k))
                           (nlopt_optimize probe_library (solver notebook_params [0] [1]) (x_vec sk))
                           (sk\<lparr>stdout := stdout sk @ [Current_beta (4 * 2 ^ k)]\<rparr>) of
                      (Inl e, s') \<Rightarrow> (Inl e, s')
                    | (Inr xopt, s') \<Rightarrow>
                        (case slice_assign (x_vec s') xopt of
                           Inl e \<Rightarrow> (Inl e, s')
                         | Inr x' \<Rightarrow> (Inr (), s'\<lparr>x_vec := x', cur_beta := 4 * 2 ^ (k + 1)\<rparr>)))"
    using t by blast
  from this[rule_format, OF five] obtain sk where
    sk: "for_range (continuation_round probe_library notebook_params [0] [1]) [0..<5] (start_state [1 / 2] ()) = (Inr (), sk)"
      "cur_beta sk = 4 * 2 ^ 5"
      "continuation_round probe_library notebook_params [0] [1] sk =
                   (case run_solver (\<lambda>a g. f probe_library notebook_params a g (4 * 2 ^ 5))
                           (nlopt_optimize probe_library (solver notebook_params [0] [1]) (x_vec sk))
                           (sk\<lparr>stdout := stdout sk @ [Current_beta (4 * 2 ^ 5)]\<rparr>) of
                      (Inl e, s') \<Rightarrow> (Inl e, s')
                    | (Inr xopt, s') \<Rightarrow>
                        (case slice_assign (x_vec s') xopt of
                           Inl e \<Rightarrow> (Inl e, s')
                         | Inr x' \<Rightarrow> (Inr (), s'\<lparr>x_vec := x', cur_beta := 4 * 2 ^ (5 + 1)\<rparr>)))"
    by blast
  have n: "(4::int) * 2 ^ 5 = 128" "(4::int) * 2 ^ (5 + 1) = 256" by simp_all
  from sk have "\<exists>sk. for_range (continuation_round probe_library notebook_params [0] [1]) [0..<5] (start_state [1 / 2] ())
               = (Inr (), sk)
            \<and> cur_beta sk = 128
            \<and> continuation_round probe_library notebook_params [0] [1] sk =
                   (case run_solver (\<lambda>a g. f probe_library notebook_params a g 128)
                           (nlopt_optimize probe_library (solver notebook_params [0] [1]) (x_vec sk))
                           (sk\<lparr>stdout := stdout sk @ [Current_beta 128]\<rparr>) of
                      (Inl e, s') \<Rightarrow> (Inl e, s')
                    | (Inr xopt, s') \<Rightarrow>
                        (case slice_assign (x_vec s') xopt of
                           Inl e \<Rightarrow> (Inl e, s')
                         | Inr x' \<Rightarrow> (Inr (), s'\<lparr>x_vec := x', cur_beta := 256\<rparr>)))"
    unfolding n by blast
  with run spv show ?thesis by (intro conjI)
qed

end
